theory Spec2Isabelle
  imports Complex_Main
begin

section \<open>Python and NumPy primitives used by the calculators\<close>

text \<open>
  The calculators work on NumPy arrays of double-precision numbers. One-dimensional
  arrays are modelled as lists over the reals (rounding, overflow and infinities are
  not modelled), a two-dimensional array of shape \<open>(T, d)\<close> as the list of its \<open>T\<close> rows.
  Every exception the Python code can raise is a value \<open>Inl e\<close> of the result type.
\<close>

datatype error = ValueError | IndexError | KeyError | ZeroDivisionError

definition rbind :: "error + 'a \<Rightarrow> ('a \<Rightarrow> error + 'b) \<Rightarrow> error + 'b" where
  "rbind m f = (case m of Inl e \<Rightarrow> Inl e | Inr x \<Rightarrow> f x)"

text \<open>A \<^verbatim>\<open>for x in xs\<close> loop whose body updates \<open>s\<close> and may raise.\<close>

fun for_loop :: "('s \<Rightarrow> 'a \<Rightarrow> error + 's) \<Rightarrow> 's \<Rightarrow> 'a list \<Rightarrow> error + 's" where
  "for_loop body s [] = Inr s"
| "for_loop body s (x # xs) = rbind (body s x) (\<lambda>s'. for_loop body s' xs)"

text \<open>A list comprehension \<^verbatim>\<open>[f(x) for x in xs]\<close> whose element expression may raise.\<close>

fun comprehension :: "('a \<Rightarrow> error + 'b) \<Rightarrow> 'a list \<Rightarrow> error + 'b list" where
  "comprehension f [] = Inr []"
| "comprehension f (x # xs) =
     rbind (f x) (\<lambda>y. rbind (comprehension f xs) (\<lambda>ys. Inr (y # ys)))"

text \<open>\<^verbatim>\<open>xs[i]\<close> on a Python list with a non-negative index.\<close>

definition py_index :: "'a list \<Rightarrow> nat \<Rightarrow> error + 'a" where
  "py_index xs i = (if i < length xs then Inr (xs ! i) else Inl IndexError)"

text \<open>\<^verbatim>\<open>d[k]\<close> on a dictionary.\<close>

definition py_getitem :: "('k \<rightharpoonup> 'v) \<Rightarrow> 'k \<Rightarrow> error + 'v" where
  "py_getitem d k = (case d k of None \<Rightarrow> Inl KeyError | Some v \<Rightarrow> Inr v)"

text \<open>\<^verbatim>\<open>xs[start:]\<close>: a negative start counts from the end.\<close>

definition py_slice_from :: "'a list \<Rightarrow> int \<Rightarrow> 'a list" where
  "py_slice_from xs start =
     (if start < 0 then drop (nat (max 0 (int (length xs) + start))) xs
      else drop (nat start) xs)"

text \<open>\<^verbatim>\<open>np.zeros(n)\<close> raises for a negative dimension.\<close>

definition np_zeros :: "int \<Rightarrow> error + real list" where
  "np_zeros n = (if n < 0 then Inl ValueError else Inr (replicate (nat n) 0))"

text \<open>
  Elementwise binary operations on one-dimensional arrays follow NumPy's broadcasting:
  equal lengths combine pointwise, a length-one operand is stretched, anything else
  raises. The in-place form \<^verbatim>\<open>acc += x\<close> keeps the shape of \<open>acc\<close>.
\<close>

definition np_broadcast ::
  "(real \<Rightarrow> real \<Rightarrow> real) \<Rightarrow> real list \<Rightarrow> real list \<Rightarrow> error + real list" where
  "np_broadcast f xs ys =
     (if length xs = length ys then Inr (map2 f xs ys)
      else if length xs = 1 then Inr (map (\<lambda>y. f (hd xs) y) ys)
      else if length ys = 1 then Inr (map (\<lambda>x. f x (hd ys)) xs)
      else Inl ValueError)"

definition np_iadd :: "real list \<Rightarrow> real list \<Rightarrow> error + real list" where
  "np_iadd acc x =
     (if length x = length acc then Inr (map2 (+) acc x)
      else if length x = 1 then Inr (map (\<lambda>a. a + hd x) acc)
      else Inl ValueError)"

text \<open>
  Python's builtin \<^verbatim>\<open>sum\<close> over a list of arrays starts from the scalar \<open>0\<close>, which
  broadcasts like an array of length one.
\<close>

definition py_sum :: "real list list \<Rightarrow> error + real list" where
  "py_sum arrays = for_loop (np_broadcast (+)) [0] arrays"

text \<open>\<^verbatim>\<open>a[:, idx]\<close> on a two-dimensional array.\<close>

definition column :: "real list list \<Rightarrow> nat \<Rightarrow> error + real list" where
  "column a idx =
     (if list_all (\<lambda>row. idx < length row) a then Inr (map (\<lambda>row. row ! idx) a)
      else Inl IndexError)"

text \<open>
  The full discrete cross-correlation of two non-empty real sequences has
  \<open>length in1 + length in2 - 1\<close> entries, entry \<open>k\<close> being
  \<open>\<Sum>l. in1[l] * in2[l - k + length in2 - 1]\<close>, where \<open>in2\<close> is zero outside its range; with an
  empty sequence there is nothing to correlate.
\<close>

definition cross_correlation :: "real list \<Rightarrow> real list \<Rightarrow> real list" where
  "cross_correlation in1 in2 =
     (if in1 = [] \<or> in2 = [] then []
      else map (\<lambda>k. \<Sum>l\<leftarrow>[0..<length in1].
                  if k \<le> l + (length in2 - 1) \<and> l + (length in2 - 1) - k < length in2
                  then in1 ! l * in2 ! (l + (length in2 - 1) - k) else 0)
             [0..<length in1 + length in2 - 1])"

text \<open>
  \<^verbatim>\<open>scipy.signal.correlate(in1, in2, mode="full", method="auto")\<close> for one-dimensional
  real inputs returns their full cross-correlation; the direct and the FFT method are
  the same function on the reals. An empty input raises \<^verbatim>\<open>ValueError\<close>.
\<close>

definition correlate :: "real list \<Rightarrow> real list \<Rightarrow> error + real list" where
  "correlate in1 in2 =
     (if in1 = [] \<or> in2 = [] then Inl ValueError else Inr (cross_correlation in1 in2))"

text \<open>\<^verbatim>\<open>np.diff(x)\<close> is \<^verbatim>\<open>x[1:] - x[:-1]\<close>.\<close>

definition np_diff :: "real list \<Rightarrow> real list" where
  "np_diff x = map2 (-) (tl x) (butlast x)"

text \<open>
  \<^verbatim>\<open>np.trapz(y, x=x)\<close> computes \<^verbatim>\<open>(diff(x) * (y[1:] + y[:-1]) / 2.0).sum()\<close>; the
  product broadcasts and raises when the shapes do not fit.
\<close>

definition np_trapz :: "real list \<Rightarrow> real list \<Rightarrow> error + real" where
  "np_trapz y x =
     rbind (np_broadcast (*) (np_diff x) (map2 (+) (tl y) (butlast y)))
       (\<lambda>p. Inr (sum_list (map (\<lambda>v. v / 2) p)))"

section \<open>The Green-Kubo distinct diffusion calculator\<close>

subsection \<open>State of the calculator object\<close>

text \<open>
  A NumPy float as returned by \<^verbatim>\<open>np.mean\<close> and \<^verbatim>\<open>np.std\<close>: these return \<open>nan\<close> on an
  empty array, and a division by zero gives an infinity or \<open>nan\<close>.
\<close>

datatype npfloat = Num real | PosInf | NegInf | NaN

text \<open>The dictionary handed to \<^verbatim>\<open>queue_data\<close>.\<close>

record result_data =
  diffusion_coefficient :: npfloat
  uncertainty :: npfloat
  time_series :: "real list"
  vacf_series :: "real list"

text \<open>The keyword arguments of one \<^verbatim>\<open>tqdm\<close> progress bar.\<close>

record tqdm_args =
  ncols :: nat
  desc :: string
  total :: nat
  disable :: bool

text \<open>What the calculator reads from \<^verbatim>\<open>self.experiment\<close>.\<close>

record experiment_constants =
  units_length :: real
  units_time :: real
  species_n_particles :: "string \<rightharpoonup> int"

text \<open>
  The attributes of the calculator object that the methods below read or write.
  \<open>queue\<close> collects the calls of \<^verbatim>\<open>queue_data\<close> (subjects and data), \<open>bars\<close> the progress
  bars opened by \<^verbatim>\<open>run_calculator\<close>.
\<close>

record calculator =
  data_range :: int
  time :: "real list"
  vacf :: "real list"
  sigma :: "real list"
  prefactor :: real
  combinations :: "(string \<times> string) list"
  the_experiment :: experiment_constants
  minibatch :: bool
  n_batches :: nat
  queue :: "(string list \<times> result_data) list"
  bars :: "tqdm_args list"

subsection \<open>The per-ensemble operation\<close>

text \<open>
  An ensemble is a dictionary from a reference (species and property name) to an array
  of shape (particles, data_range, 3).
\<close>

type_synonym ensemble = "string \<rightharpoonup> real list list list"

text \<open>
  The summand of the double loop:
  \<^verbatim>\<open>sum([signal.correlate(a[:, idx], b[:, idx], mode="full") for idx in range(3)])\<close>.
\<close>

definition pair_correlation :: "real list list \<Rightarrow> real list list \<Rightarrow> error + real list" where
  "pair_correlation a b =
     rbind (comprehension
              (\<lambda>idx. rbind (column a idx) (\<lambda>x. rbind (column b idx) (\<lambda>y. correlate x y)))
              [0, 1, 2])
       py_sum"

text \<open>
  The double loop of \<^verbatim>\<open>ensemble_operation\<close> over the particle indices \<open>i\<close> in
  \<^verbatim>\<open>range(len(data[dict_ref[0]]))\<close> and \<open>j\<close> in \<^verbatim>\<open>range(i + 1, len(data[dict_ref[1]]))\<close>,
  accumulating into the local array \<^verbatim>\<open>vacf\<close>; a pair with \<open>i = j\<close> is skipped when
  \<open>same_species\<close> is set.
\<close>

definition pair_loop :: "ensemble \<Rightarrow> string list \<Rightarrow> bool \<Rightarrow> real list \<Rightarrow> error + real list" where
  "pair_loop data dict_ref same_species vacf0 =
     rbind (py_index dict_ref 0) (\<lambda>ref0. rbind (py_getitem data ref0) (\<lambda>d0.
       for_loop
         (\<lambda>acc i. rbind (py_index dict_ref 1) (\<lambda>ref1. rbind (py_getitem data ref1) (\<lambda>d1.
            for_loop
              (\<lambda>acc' j. if same_species \<and> i = j then Inr acc'
                        else rbind (pair_correlation (d0 ! i) (d1 ! j)) (np_iadd acc'))
              acc [i + 1..<length d1])))
         vacf0 [0..<length d0]))"

text \<open>
  \<^verbatim>\<open>ensemble_operation\<close>: the attribute \<^verbatim>\<open>self.vacf\<close> is set to zeros, the local array is
  filled by the double loop, its one-sided part is added to \<^verbatim>\<open>self.vacf\<close> and its
  trapezoidal integral over \<^verbatim>\<open>self.time\<close> is appended to \<^verbatim>\<open>self.sigma\<close>.
\<close>

definition ensemble_operation ::
  "calculator \<Rightarrow> ensemble \<Rightarrow> string list \<Rightarrow> bool \<Rightarrow> error + calculator" where
  "ensemble_operation self data dict_ref same_species =
     rbind (np_zeros (data_range self)) (\<lambda>self_vacf.
     rbind (np_zeros (2 * data_range self - 1)) (\<lambda>vacf0.
     rbind (pair_loop data dict_ref same_species vacf0) (\<lambda>vacf1.
     rbind (np_iadd self_vacf (py_slice_from vacf1 (data_range self - 1))) (\<lambda>self_vacf'.
     rbind (np_trapz (py_slice_from vacf1 (data_range self - 1)) (time self)) (\<lambda>integral.
     Inr (self\<lparr>vacf := self_vacf', sigma := sigma self @ [integral]\<rparr>))))))"

subsection \<open>Prefactor and post-processing\<close>

text \<open>\<^verbatim>\<open>self.experiment.species[name].n_particles\<close>.\<close>

definition n_particles :: "calculator \<Rightarrow> string \<Rightarrow> error + int" where
  "n_particles self name = py_getitem (species_n_particles (the_experiment self)) name"

text \<open>
  \<^verbatim>\<open>_calculate_prefactor\<close>. The units and particle numbers are Python numbers, so the
  final division raises \<^verbatim>\<open>ZeroDivisionError\<close> on a zero denominator.
\<close>

definition calculate_prefactor :: "calculator \<Rightarrow> string \<times> string \<Rightarrow> error + calculator" where
  "calculate_prefactor self species =
     rbind (if fst species = snd species
            then rbind (n_particles self (fst species)) (\<lambda>n0.
                 rbind (n_particles self (snd species)) (\<lambda>n1. Inr (n0 * (n1 - 1))))
            else rbind (n_particles self (fst species)) (\<lambda>n0.
                 rbind (n_particles self (snd species)) (\<lambda>n1. Inr (n0 * n1))))
       (\<lambda>atom_scale.
          let numerator = (units_length (the_experiment self))\<^sup>2;
              denominator = 3 * units_time (the_experiment self)
                              * of_int (data_range self - 1) * of_int atom_scale
          in if denominator = 0 then Inl ZeroDivisionError
             else Inr (self\<lparr>prefactor := numerator / denominator\<rparr>))"

text \<open>\<^verbatim>\<open>np.mean\<close> and \<^verbatim>\<open>np.std\<close> (default \<^verbatim>\<open>ddof=0\<close>) of a one-dimensional array.\<close>

definition np_mean :: "real list \<Rightarrow> npfloat" where
  "np_mean xs = (if xs = [] then NaN else Num (sum_list xs / real (length xs)))"

definition np_std :: "real list \<Rightarrow> npfloat" where
  "np_std xs =
     (if xs = [] then NaN
      else Num (sqrt (sum_list (map (\<lambda>x. (x - sum_list xs / real (length xs))\<^sup>2) xs)
                        / real (length xs))))"

text \<open>Division of a NumPy float by a finite number.\<close>

fun np_divide :: "npfloat \<Rightarrow> real \<Rightarrow> npfloat" where
  "np_divide (Num x) d =
     (if d = 0 then (if x = 0 then NaN else if 0 < x then PosInf else NegInf)
      else Num (x / d))"
| "np_divide PosInf d = (if d < 0 then NegInf else PosInf)"
| "np_divide NegInf d = (if d < 0 then PosInf else NegInf)"
| "np_divide NaN d = NaN"

text \<open>
  \<^verbatim>\<open>_post_operation_processes\<close>. \<^verbatim>\<open>queue_data\<close> belongs to the calculator base class; its
  call is recorded in \<open>queue\<close>.
\<close>

definition post_operation_processes :: "calculator \<Rightarrow> string \<times> string \<Rightarrow> calculator" where
  "post_operation_processes self species =
     (let result = map (\<lambda>s. prefactor self * s) (sigma self);
          data = \<lparr>diffusion_coefficient = np_mean result,
                  uncertainty = np_divide (np_std result) (sqrt (real (length result))),
                  time_series = time self,
                  vacf_series = vacf self\<rparr>
      in self\<lparr>queue := queue self @ [([fst species, snd species], data)]\<rparr>)"

subsection \<open>The calculator loop\<close>

text \<open>
  The batch and ensemble generators and the name of the loaded property come from the
  trajectory-calculator base class and the property catalogue; they are parameters here.
\<close>

record 'b collaborators =
  property_name :: string
  get_batch_dataset :: "string list \<Rightarrow> 'b list"
  get_ensemble_dataset :: "'b \<Rightarrow> string list \<Rightarrow> ensemble list"

text \<open>
  The loop over the batches of one combination and, inside it, over the ensembles of
  each batch.
\<close>

definition batch_loop ::
  "'b collaborators \<Rightarrow> calculator \<Rightarrow> string list \<Rightarrow> string list \<Rightarrow> error + calculator" where
  "batch_loop env self species_values dict_ref =
     for_loop
       (\<lambda>s batch. for_loop (\<lambda>s' ens. ensemble_operation s' ens dict_ref False) s
                     (get_ensemble_dataset env batch species_values))
       self (get_batch_dataset env species_values)"

text \<open>
  The body of the loop over \<^verbatim>\<open>self.combinations\<close>. Opening the progress bar of the
  batch loop is recorded in \<open>bars\<close>.
\<close>

definition run_combination ::
  "'b collaborators \<Rightarrow> calculator \<Rightarrow> string \<times> string \<Rightarrow> error + calculator" where
  "run_combination env self combination =
     (let species_values = [fst combination, snd combination];
          dict_ref = map (\<lambda>species. species @ ''/'' @ property_name env) species_values;
          bar = \<lparr>ncols = 70, desc = fst combination @ ''-'' @ snd combination,
                 total = n_batches self, disable = minibatch self\<rparr>
      in rbind (batch_loop env (self\<lparr>bars := bars self @ [bar]\<rparr>) species_values dict_ref)
           (\<lambda>s1.
         rbind (calculate_prefactor s1 combination) (\<lambda>s2.
         Inr ((post_operation_processes s2 combination)\<lparr>sigma := []\<rparr>))))"

text \<open>
  \<^verbatim>\<open>run_calculator\<close>: the dependency check of \<^verbatim>\<open>check_input\<close> belongs to the base class and
  is left out; the loop visits \<^verbatim>\<open>self.combinations\<close> in order.
\<close>

definition run_calculator :: "'b collaborators \<Rightarrow> calculator \<Rightarrow> error + calculator" where
  "run_calculator env self = for_loop (run_combination env) self (combinations self)"

section \<open>The flux-based thermal conductivity analysis\<close>

text \<open>
  \<^verbatim>\<open>_compute_thermal_conductivity\<close> in \<^verbatim>\<open>flux_analyses.py\<close> computes the number of windows
  \<^verbatim>\<open>loop_range = len(flux) - self.data_range - 1\<close> and hands it to the helper
  \<^verbatim>\<open>convolution(loop_range=loop_range, flux=flux, data_range=..., time=...)\<close>. The helper's
  module is not among the sources, so only the bound is modelled.
\<close>

definition loop_range :: "'a list \<Rightarrow> int \<Rightarrow> int" where
  "loop_range flux dr = int (length flux) - dr - 1"

section \<open>Reference notions\<close>

text \<open>Column \<open>idx\<close> of a two-dimensional array whose rows are long enough.\<close>

definition col :: "real list list \<Rightarrow> nat \<Rightarrow> real list" where
  "col a idx = map (\<lambda>row. row ! idx) a"

text \<open>An array of shape \<open>(particles, T, 3)\<close>.\<close>

definition has_shape :: "nat \<Rightarrow> real list list list \<Rightarrow> bool" where
  "has_shape T d = list_all (\<lambda>p. length p = T \<and> list_all (\<lambda>row. length row = 3) p) d"

text \<open>The index pairs visited by the double loop, in the order of the visits.\<close>

definition index_pairs :: "nat \<Rightarrow> nat \<Rightarrow> (nat \<times> nat) list" where
  "index_pairs n0 n1 = concat (map (\<lambda>i. map (Pair i) [i + 1..<n1]) [0..<n0])"

text \<open>
  The sum over three dimensions of the full cross-correlations of two particles'
  signals, entry \<open>k\<close>.
\<close>

definition dim_sum :: "real list list \<Rightarrow> real list list \<Rightarrow> nat \<Rightarrow> real" where
  "dim_sum a b k = (\<Sum>idx\<leftarrow>[0..<3]. cross_correlation (col a idx) (col b idx) ! k)"

text \<open>The full correlation summed over all visited pairs, for windows of length \<open>T\<close>.\<close>

definition full_correlation :: "nat \<Rightarrow> real list list list \<Rightarrow> real list list list \<Rightarrow> real list" where
  "full_correlation T d0 d1 =
     map (\<lambda>k. \<Sum>(i, j)\<leftarrow>index_pairs (length d0) (length d1). dim_sum (d0 ! i) (d1 ! j) k)
       [0..<2 * T - 1]"

text \<open>The trapezoidal rule for \<open>y\<close> over the abscissae \<open>x\<close> of the same length.\<close>

definition trapezoid :: "real list \<Rightarrow> real list \<Rightarrow> real" where
  "trapezoid y x =
     (\<Sum>k\<leftarrow>[0..<length y - 1]. (x ! Suc k - x ! k) * (y ! Suc k + y ! k) / 2)"

text \<open>
  The windowing rule of the specification, against which the bound of the flux analysis
  is compared: the offsets \<open>0, stride, 2 * stride, \<dots>\<close> taken while
  \<open>offset + data_range \<le> length\<close>, for a stride of at least one.
\<close>

definition window_offsets :: "nat \<Rightarrow> nat \<Rightarrow> nat \<Rightarrow> nat list" where
  "window_offsets stride dr len =
     takeWhile (\<lambda>off. off + dr \<le> len) (map (\<lambda>k. k * stride) [0..<Suc len])"

text \<open>
  The sample standard deviation (divisor \<open>n - 1\<close>) and the standard error of the mean
  built from it.
\<close>

definition sample_std :: "real list \<Rightarrow> real" where
  "sample_std xs =
     sqrt (sum_list (map (\<lambda>x. (x - sum_list xs / real (length xs))\<^sup>2) xs)
             / (real (length xs) - 1))"

definition sample_standard_error :: "real list \<Rightarrow> real" where
  "sample_standard_error xs = sample_std xs / sqrt (real (length xs))"

text \<open>The population standard deviation (divisor \<open>n\<close>).\<close>

definition population_std :: "real list \<Rightarrow> real" where
  "population_std xs =
     sqrt (sum_list (map (\<lambda>x. (x - sum_list xs / real (length xs))\<^sup>2) xs)
             / real (length xs))"

definition arithmetic_mean :: "real list \<Rightarrow> real" where
  "arithmetic_mean xs = sum_list xs / real (length xs)"

text \<open>
  Two calculator objects with the same window length, time axis and experiment constants.
\<close>

definition same_configuration :: "calculator \<Rightarrow> calculator \<Rightarrow> bool" where
  "same_configuration a b \<longleftrightarrow>
     data_range b = data_range a \<and> time b = time a \<and> the_experiment b = the_experiment a"

section \<open>Example inputs\<close>

text \<open>
  Particle signals observed over a window of two time steps, an ensemble holding two
  sodium and two chloride particles, and a calculator configured for that window.
\<close>

definition ex_a :: "real list list" where
  "ex_a = [[1, 0, 2], [3, 1, 0]]"

definition ex_b :: "real list list" where
  "ex_b = [[2, 1, 1], [0, 1, 4]]"

definition ex_c :: "real list list" where
  "ex_c = [[1, 1, 1], [1, 1, 1]]"

definition ex_ensemble :: ensemble where
  "ex_ensemble = [''Na/Velocities'' \<mapsto> [ex_a, ex_c], ''Cl/Velocities'' \<mapsto> [ex_c, ex_b]]"

definition ex_ensemble2 :: ensemble where
  "ex_ensemble2 = [''Na/Velocities'' \<mapsto> [ex_b, ex_a], ''Cl/Velocities'' \<mapsto> [ex_a, ex_c]]"

definition ex_experiment :: experiment_constants where
  "ex_experiment =
     \<lparr>units_length = 1, units_time = 1,
      species_n_particles = [''Na'' \<mapsto> 2, ''Cl'' \<mapsto> 2]\<rparr>"

definition ex_calculator :: calculator where
  "ex_calculator =
     \<lparr>data_range = 2, time = [0, 1], vacf = [0, 0], sigma = [], prefactor = 0,
      combinations = [(''Na'', ''Na''), (''Na'', ''Cl''), (''Cl'', ''Cl'')],
      the_experiment = ex_experiment,
      minibatch = False, n_batches = 1, queue = [], bars = []\<rparr>"

text \<open>A flux series of four time steps.\<close>

definition ex_flux :: "real list list" where
  "ex_flux = [[1, 0, 0], [0, 1, 0], [0, 0, 1], [1, 1, 1]]"

text \<open>
  Collaborators that deliver one batch with two ensembles for every combination, and
  collaborators for a trajectory too short to hold a single window.
\<close>

definition ex_env :: "nat collaborators" where
  "ex_env =
     \<lparr>property_name = ''Velocities'',
      get_batch_dataset = (\<lambda>species. [0]),
      get_ensemble_dataset = (\<lambda>batch species. [ex_ensemble, ex_ensemble2])\<rparr>"

definition ex_env_short :: "nat collaborators" where
  "ex_env_short =
     \<lparr>property_name = ''Velocities'',
      get_batch_dataset = (\<lambda>species. [0]),
      get_ensemble_dataset = (\<lambda>batch species. [])\<rparr>"

section \<open>Basic facts about the primitives\<close>

lemma rbind_Inr [simp]: "rbind (Inr x) f = f x"
  by (simp add: rbind_def)

lemma rbind_Inl [simp]: "rbind (Inl e) f = Inl e"
  by (simp add: rbind_def)

section \<open>The per-ensemble operation on well-shaped input\<close>

lemma column_ok:
  "list_all (\<lambda>row. idx < length row) a \<Longrightarrow> column a idx = Inr (col a idx)"
  by (simp add: column_def col_def)

lemma length_col [simp]: "length (col a idx) = length a"
  by (simp add: col_def)

lemma col_Nil_iff [simp]: "col a idx = [] \<longleftrightarrow> a = []"
  by (simp add: col_def)

lemma length_correlate:
  "x \<noteq> [] \<Longrightarrow> y \<noteq> [] \<Longrightarrow> length (cross_correlation x y) = length x + length y - 1"
  by (simp add: cross_correlation_def)

lemma np_broadcast_same:
  "length xs = length ys \<Longrightarrow> np_broadcast f xs ys = Inr (map2 f xs ys)"
  by (simp add: np_broadcast_def)

lemma np_broadcast_scalar_zero:
  "np_broadcast (+) [0] ys = Inr ys"
proof (cases "length ys = 1")
  case True
  then obtain y where "ys = [y]" by (cases ys) auto
  then show ?thesis by (simp add: np_broadcast_def)
next
  case False
  have "map ((+) 0) ys = ys" by (induction ys) auto
  with False show ?thesis by (auto simp add: np_broadcast_def)
qed

lemma map2_add_nth:
  "length xs = n \<Longrightarrow> length ys = n \<Longrightarrow> map2 (+) xs ys = map (\<lambda>k. xs ! k + ys ! (k::nat) :: real) [0..<n]"
  by (rule nth_equalityI) auto

lemma py_sum_three:
  assumes "length c0 = n" "length c1 = n" "length c2 = n"
  shows "py_sum [c0, c1, c2] = Inr (map (\<lambda>k. c0 ! k + c1 ! k + c2 ! k) [0..<n])"
proof -
  have "py_sum [c0, c1, c2] = Inr (map2 (+) (map2 (+) c0 c1) c2)"
    using assms by (simp add: py_sum_def np_broadcast_scalar_zero np_broadcast_same)
  also have "map2 (+) (map2 (+) c0 c1) c2 = map (\<lambda>k. c0 ! k + c1 ! k + c2 ! k) [0..<n]"
    using assms by (intro nth_equalityI) auto
  finally show ?thesis .
qed

lemma upt_3: "[0..<3] = [0, 1, 2]"
  by (simp add: upt_rec)

lemma pair_correlation_ok:
  assumes "length a = T" "length b = T" "0 < T"
    and "list_all (\<lambda>row. length row = 3) a" "list_all (\<lambda>row. length row = 3) b"
  shows "pair_correlation a b = Inr (map (dim_sum a b) [0..<2 * T - 1])"
proof -
  have ca: "column a idx = Inr (col a idx)" if "idx < 3" for idx
    using assms(4) that by (intro column_ok) (auto simp: list_all_iff)
  have cb: "column b idx = Inr (col b idx)" if "idx < 3" for idx
    using assms(5) that by (intro column_ok) (auto simp: list_all_iff)
  have len: "length (cross_correlation (col a idx) (col b idx)) = 2 * T - 1" for idx
    using assms(1-3) by (subst length_correlate) auto
  have cc: "correlate (col a idx) (col b idx) = Inr (cross_correlation (col a idx) (col b idx))"
    for idx
    using assms(1-3) by (auto simp add: correlate_def)
  have "pair_correlation a b =
        py_sum [cross_correlation (col a 0) (col b 0), cross_correlation (col a 1) (col b 1),
                cross_correlation (col a 2) (col b 2)]"
    by (simp add: pair_correlation_def ca cb cc)
  also have "\<dots> = Inr (map (\<lambda>k. cross_correlation (col a 0) (col b 0) ! k + cross_correlation (col a 1) (col b 1) ! k
                 + cross_correlation (col a 2) (col b 2) ! k) [0..<2 * T - 1])"
    by (rule py_sum_three) (rule len)+
  also have "(\<lambda>k. cross_correlation (col a 0) (col b 0) ! k + cross_correlation (col a 1) (col b 1) ! k
                 + cross_correlation (col a 2) (col b 2) ! k) = dim_sum a b"
    by (rule ext) (simp add: dim_sum_def upt_3)
  finally show ?thesis .
qed

lemma for_loop_add:
  assumes "\<And>x acc. x \<in> set xs \<Longrightarrow> length acc = m \<Longrightarrow>
             body acc x = Inr (map (\<lambda>k. acc ! k + h x k) [0..<m])"
    and "length s = m"
  shows "for_loop body s xs = Inr (map (\<lambda>k. s ! k + (\<Sum>x\<leftarrow>xs. h x k :: real)) [0..<m])"
  using assms
proof (induction xs arbitrary: s)
  case Nil
  then show ?case by (auto intro: nth_equalityI)
next
  case (Cons x xs)
  have step: "body s x = Inr (map (\<lambda>k. s ! k + h x k) [0..<m])"
    using Cons.prems by simp
  have "for_loop body (map (\<lambda>k. s ! k + h x k) [0..<m]) xs =
        Inr (map (\<lambda>k. map (\<lambda>k. s ! k + h x k) [0..<m] ! k + (\<Sum>x\<leftarrow>xs. h x k)) [0..<m])"
    using Cons.prems by (intro Cons.IH) auto
  also have "map (\<lambda>k. map (\<lambda>k. s ! k + h x k) [0..<m] ! k + (\<Sum>x\<leftarrow>xs. h x k)) [0..<m] =
             map (\<lambda>k. s ! k + (\<Sum>x\<leftarrow>x # xs. h x k)) [0..<m]"
    by (rule nth_equalityI) (auto simp: add.assoc)
  finally show ?case by (simp add: step)
qed

lemma np_iadd_same:
  "length x = length acc \<Longrightarrow> np_iadd acc x = Inr (map (\<lambda>k. acc ! k + x ! k) [0..<length acc])"
  by (simp add: np_iadd_def map2_add_nth)

lemma sum_list_index_pairs:
  "(\<Sum>(i, j)\<leftarrow>index_pairs n0 n1. f i j) = (\<Sum>i\<leftarrow>[0..<n0]. \<Sum>j\<leftarrow>[i + 1..<n1]. (f i j :: real))"
proof -
  have "(\<Sum>(i, j)\<leftarrow>concat (map (\<lambda>i. map (Pair i) [i + 1..<n1]) is). f i j) =
        (\<Sum>i\<leftarrow>is. \<Sum>j\<leftarrow>[i + 1..<n1]. f i j)" for "is"
    by (induction "is") (simp_all add: comp_def)
  then show ?thesis by (simp add: index_pairs_def)
qed

lemma pair_loop_ok:
  assumes refs: "py_index dict_ref 0 = Inr r0" "py_index dict_ref 1 = Inr r1"
    and data: "data r0 = Some d0" "data r1 = Some d1"
    and shape: "has_shape T d0" "has_shape T d1" and T: "0 < T"
  shows "pair_loop data dict_ref same_species (replicate (2 * T - 1) 0) =
         Inr (full_correlation T d0 d1)"
proof -
  let ?m = "2 * T - 1"
  have pc: "pair_correlation (d0 ! i) (d1 ! j) = Inr (map (dim_sum (d0 ! i) (d1 ! j)) [0..<?m])"
    if "i < length d0" "j < length d1" for i j
    using shape that T by (intro pair_correlation_ok) (auto simp: has_shape_def list_all_length)
  have inner: "for_loop
          (\<lambda>acc' j. if same_species \<and> i = j then Inr acc'
                    else rbind (pair_correlation (d0 ! i) (d1 ! j)) (np_iadd acc'))
          acc [i + 1..<length d1] =
        Inr (map (\<lambda>k. acc ! k + (\<Sum>j\<leftarrow>[i + 1..<length d1]. dim_sum (d0 ! i) (d1 ! j) k)) [0..<?m])"
    if "i < length d0" "length acc = ?m" for i acc
  proof (rule for_loop_add)
    fix j and acc' :: "real list"
    assume j: "j \<in> set [i + 1..<length d1]" and len: "length acc' = ?m"
    then have "i \<noteq> j" "j < length d1" by auto
    then show "(if same_species \<and> i = j then Inr acc'
                else rbind (pair_correlation (d0 ! i) (d1 ! j)) (np_iadd acc')) =
               Inr (map (\<lambda>k. acc' ! k + dim_sum (d0 ! i) (d1 ! j) k) [0..<?m])"
      using that(1) len by (simp add: pc np_iadd_same cong: map_cong)
  qed (rule that)
  have "pair_loop data dict_ref same_species (replicate ?m 0) =
        for_loop
         (\<lambda>acc i. rbind (py_index dict_ref 1) (\<lambda>ref1. rbind (py_getitem data ref1) (\<lambda>d1.
            for_loop
              (\<lambda>acc' j. if same_species \<and> i = j then Inr acc'
                        else rbind (pair_correlation (d0 ! i) (d1 ! j)) (np_iadd acc'))
              acc [i + 1..<length d1])))
         (replicate ?m 0) [0..<length d0]"
    by (simp add: pair_loop_def refs data py_getitem_def)
  also have "\<dots> = Inr (map (\<lambda>k. replicate ?m 0 ! k +
        (\<Sum>i\<leftarrow>[0..<length d0]. \<Sum>j\<leftarrow>[i + 1..<length d1]. dim_sum (d0 ! i) (d1 ! j) k)) [0..<?m])"
  proof (rule for_loop_add)
    fix i and acc :: "real list"
    assume "i \<in> set [0..<length d0]" and "length acc = ?m"
    then have "i < length d0" "length acc = ?m" by auto
    from inner[OF this] show "rbind (py_index dict_ref 1) (\<lambda>ref1. rbind (py_getitem data ref1) (\<lambda>d1.
            for_loop
              (\<lambda>acc' j. if same_species \<and> i = j then Inr acc'
                        else rbind (pair_correlation (d0 ! i) (d1 ! j)) (np_iadd acc'))
              acc [i + 1..<length d1])) =
          Inr (map (\<lambda>k. acc ! k + (\<Sum>j\<leftarrow>[i + 1..<length d1]. dim_sum (d0 ! i) (d1 ! j) k)) [0..<?m])"
      using refs data by (simp add: py_getitem_def)
  qed simp
  also have "map (\<lambda>k. replicate ?m 0 ! k +
        (\<Sum>i\<leftarrow>[0..<length d0]. \<Sum>j\<leftarrow>[i + 1..<length d1]. dim_sum (d0 ! i) (d1 ! j) k)) [0..<?m] =
      full_correlation T d0 d1"
    by (simp add: full_correlation_def sum_list_index_pairs cong: map_cong)
  finally show ?thesis .
qed

lemma np_trapz_ok:
  assumes "length x = length y"
  shows "np_trapz y x = Inr (trapezoid y x)"
proof -
  let ?n = "length y - 1"
  have "np_broadcast (*) (np_diff x) (map2 (+) (tl y) (butlast y)) =
        Inr (map2 (*) (np_diff x) (map2 (+) (tl y) (butlast y)))"
    using assms by (intro np_broadcast_same) (simp add: np_diff_def)
  moreover have "map (\<lambda>v. v / 2) (map2 (*) (np_diff x) (map2 (+) (tl y) (butlast y))) =
        map (\<lambda>k. (x ! Suc k - x ! k) * (y ! Suc k + y ! k) / 2) [0..<?n]"
    using assms by (intro nth_equalityI) (auto simp: np_diff_def nth_tl nth_butlast)
  ultimately show ?thesis
    by (simp add: np_trapz_def trapezoid_def)
qed

lemma length_full_correlation [simp]: "length (full_correlation T d0 d1) = 2 * T - 1"
  by (simp add: full_correlation_def)

lemma ensemble_operation_ok:
  assumes dr: "data_range self = int T" "0 < T"
    and refs: "py_index dict_ref 0 = Inr r0" "py_index dict_ref 1 = Inr r1"
    and data: "data r0 = Some d0" "data r1 = Some d1"
    and shape: "has_shape T d0" "has_shape T d1"
    and tm: "length (time self) = T"
  shows "ensemble_operation self data dict_ref same_species =
         Inr (self\<lparr>vacf := drop (T - 1) (full_correlation T d0 d1),
                   sigma := sigma self @
                     [trapezoid (drop (T - 1) (full_correlation T d0 d1)) (time self)]\<rparr>)"
proof -
  let ?one = "drop (T - 1) (full_correlation T d0 d1)"
  have z1: "np_zeros (data_range self) = Inr (replicate T 0)"
    using dr by (simp add: np_zeros_def)
  have z2: "np_zeros (2 * data_range self - 1) = Inr (replicate (2 * T - 1) 0)"
    using dr by (simp add: np_zeros_def nat_diff_distrib nat_mult_distrib)
  have loop: "pair_loop data dict_ref same_species (replicate (2 * T - 1) 0) =
              Inr (full_correlation T d0 d1)"
    using refs data shape dr(2) by (rule pair_loop_ok)
  have sl: "py_slice_from (full_correlation T d0 d1) (data_range self - 1) = ?one"
    using dr by (simp add: py_slice_from_def nat_diff_distrib)
  have len: "length ?one = T" using dr(2) by simp
  have add: "np_iadd (replicate T 0) ?one = Inr ?one"
    using len by (simp add: np_iadd_same) (auto intro: nth_equalityI)
  have tr: "np_trapz ?one (time self) = Inr (trapezoid ?one (time self))"
    using len tm by (intro np_trapz_ok) simp
  show ?thesis
    using z1 z2 loop sl add tr by (simp add: ensemble_operation_def)
qed

lemma correlate_nth:
  assumes "x \<noteq> []" "y \<noteq> []" "k < length x + length y - 1"
  shows "cross_correlation x y ! k =
         (\<Sum>l\<leftarrow>[0..<length x].
            if k \<le> l + (length y - 1) \<and> l + (length y - 1) - k < length y
            then x ! l * y ! (l + (length y - 1) - k) else 0)"
  using assms by (simp add: cross_correlation_def cong: if_cong)

lemma correlate_lag:
  assumes "length x = T" "length y = T" "lag < T"
  shows "cross_correlation x y ! (T - 1 + lag) = (\<Sum>t\<leftarrow>[0..<T - lag]. x ! (t + lag) * y ! t)"
proof -
  have ne: "x \<noteq> []" "y \<noteq> []" using assms by auto
  have "cross_correlation x y ! (T - 1 + lag) =
        (\<Sum>l\<leftarrow>[0..<T]. if lag \<le> l then x ! l * y ! (l - lag) else 0)"
    using assms by (subst correlate_nth[OF ne]) (auto intro!: arg_cong[where f=sum_list] map_cong)
  also have "[0..<T] = [0..<lag] @ [lag..<T]"
    using assms(3) by (metis le_add_diff_inverse less_imp_le_nat upt_add_eq_append zero_le)
  also have "(\<Sum>l\<leftarrow>[0..<lag] @ [lag..<T]. if lag \<le> l then x ! l * y ! (l - lag) else 0) =
             (\<Sum>l\<leftarrow>[lag..<T]. x ! l * y ! (l - lag))"
  proof -
    have "(\<Sum>l\<leftarrow>[0..<lag]. if lag \<le> l then x ! l * y ! (l - lag) else 0) = (\<Sum>l\<leftarrow>[0..<lag]. 0)"
      by (intro arg_cong[where f=sum_list] map_cong) auto
    moreover have "(\<Sum>l\<leftarrow>[lag..<T]. if lag \<le> l then x ! l * y ! (l - lag) else 0) =
                   (\<Sum>l\<leftarrow>[lag..<T]. x ! l * y ! (l - lag))"
      by (intro arg_cong[where f=sum_list] map_cong) auto
    ultimately show ?thesis by simp
  qed
  also have "[lag..<T] = map (\<lambda>t. t + lag) [0..<T - lag]"
    using assms(3) by (simp add: map_add_upt)
  also have "(\<Sum>l\<leftarrow>map (\<lambda>t. t + lag) [0..<T - lag]. x ! l * y ! (l - lag)) =
             (\<Sum>t\<leftarrow>[0..<T - lag]. x ! (t + lag) * y ! t)"
    by (simp add: comp_def)
  finally show ?thesis .
qed

lemma ex_shapes: "has_shape 2 [ex_a, ex_c]" "has_shape 2 [ex_c, ex_b]"
  by (simp_all add: has_shape_def ex_a_def ex_b_def ex_c_def)

lemma ex_full_correlation: "full_correlation 2 [ex_a, ex_c] [ex_c, ex_b] = [8, 5, 7]"
  by (simp add: full_correlation_def index_pairs_def dim_sum_def cross_correlation_def col_def
      ex_a_def ex_b_def ex_c_def upt_rec)

lemma ex_trapezoid: "trapezoid [5, 7] [0, 1] = 6"
  by (simp add: trapezoid_def)

lemma correlate_negative_lag:
  assumes "length x = T" "length y = T" "lag < T"
  shows "cross_correlation x y ! (T - 1 - lag) = (\<Sum>t\<leftarrow>[0..<T - lag]. x ! t * y ! (t + lag))"
proof -
  have ne: "x \<noteq> []" "y \<noteq> []" using assms by auto
  have "cross_correlation x y ! (T - 1 - lag) =
        (\<Sum>l\<leftarrow>[0..<T]. if l + lag < T then x ! l * y ! (l + lag) else 0)"
    using assms by (subst correlate_nth[OF ne]) (auto intro!: arg_cong[where f=sum_list] map_cong)
  also have "[0..<T] = [0..<T - lag] @ [T - lag..<T]"
  proof -
    have "[0..<(T - lag) + lag] = [0..<T - lag] @ [T - lag..<(T - lag) + lag]"
      by (rule upt_add_eq_append) simp
    then show ?thesis using assms(3) by simp
  qed
  also have "(\<Sum>l\<leftarrow>[0..<T - lag] @ [T - lag..<T]. if l + lag < T then x ! l * y ! (l + lag) else 0) =
             (\<Sum>l\<leftarrow>[0..<T - lag]. x ! l * y ! (l + lag))"
  proof -
    have "(\<Sum>l\<leftarrow>[T - lag..<T]. if l + lag < T then x ! l * y ! (l + lag) else 0) =
          (\<Sum>l\<leftarrow>[T - lag..<T]. 0)"
      by (intro arg_cong[where f=sum_list] map_cong) auto
    moreover have "(\<Sum>l\<leftarrow>[0..<T - lag]. if l + lag < T then x ! l * y ! (l + lag) else 0) =
                   (\<Sum>l\<leftarrow>[0..<T - lag]. x ! l * y ! (l + lag))"
      by (intro arg_cong[where f=sum_list] map_cong) auto
    ultimately show ?thesis by simp
  qed
  finally show ?thesis .
qed

lemma col_correlate_entries:
  assumes "length a = T" "length b = T" "lag < T"
  shows "cross_correlation (col a idx) (col b idx) ! (T - 1 + lag) =
           (\<Sum>t\<leftarrow>[0..<T - lag]. a ! (t + lag) ! idx * b ! t ! idx)"
    and "cross_correlation (col a idx) (col b idx) ! (T - 1 - lag) =
           (\<Sum>t\<leftarrow>[0..<T - lag]. a ! t ! idx * b ! (t + lag) ! idx)"
proof -
  have "cross_correlation (col a idx) (col b idx) ! (T - 1 + lag) =
        (\<Sum>t\<leftarrow>[0..<T - lag]. col a idx ! (t + lag) * col b idx ! t)"
    using assms by (intro correlate_lag) auto
  also have "\<dots> = (\<Sum>t\<leftarrow>[0..<T - lag]. a ! (t + lag) ! idx * b ! t ! idx)"
    using assms by (auto intro!: arg_cong[where f=sum_list] map_cong simp: col_def)
  finally show "cross_correlation (col a idx) (col b idx) ! (T - 1 + lag) =
           (\<Sum>t\<leftarrow>[0..<T - lag]. a ! (t + lag) ! idx * b ! t ! idx)" .
  have "cross_correlation (col a idx) (col b idx) ! (T - 1 - lag) =
        (\<Sum>t\<leftarrow>[0..<T - lag]. col a idx ! t * col b idx ! (t + lag))"
    using assms by (intro correlate_negative_lag) auto
  also have "\<dots> = (\<Sum>t\<leftarrow>[0..<T - lag]. a ! t ! idx * b ! (t + lag) ! idx)"
    using assms by (auto intro!: arg_cong[where f=sum_list] map_cong simp: col_def)
  finally show "cross_correlation (col a idx) (col b idx) ! (T - 1 - lag) =
           (\<Sum>t\<leftarrow>[0..<T - lag]. a ! t ! idx * b ! (t + lag) ! idx)" .
qed

text \<open>
  C2: for windows of length \<open>data_range\<close> with three-dimensional samples, every visited
  particle pair contributes the elementwise sum over the three dimensions of the full
  cross-correlations of its per-dimension signals. Each of these has length
  \<open>2 * data_range - 1\<close>, with the lag \<open>0\<close> at index \<open>data_range - 1\<close>, the sums
  \<open>\<Sum>t. a[t + lag] * b[t]\<close> after it and the sums \<open>\<Sum>t. a[t] * b[t + lag]\<close> before it. The
  one-sided result stored by the operation is the summed full correlation without its
  first \<open>data_range - 1\<close> entries and has length \<open>data_range\<close>.
\<close>

theorem ensemble_operation_one_sided:
  assumes "data_range self = int T" "0 < T"
    and "py_index dict_ref 0 = Inr r0" "py_index dict_ref 1 = Inr r1"
    and "data r0 = Some d0" "data r1 = Some d1"
    and "has_shape T d0" "has_shape T d1"
    and "length (time self) = T"
  shows "(\<forall>(i, j) \<in> set (index_pairs (length d0) (length d1)).
            pair_correlation (d0 ! i) (d1 ! j) =
              Inr (map (\<lambda>k. cross_correlation (col (d0 ! i) 0) (col (d1 ! j) 0) ! k
                           + cross_correlation (col (d0 ! i) 1) (col (d1 ! j) 1) ! k
                           + cross_correlation (col (d0 ! i) 2) (col (d1 ! j) 2) ! k) [0..<2 * T - 1])
            \<and> (\<forall>idx < 3.
                  correlate (col (d0 ! i) idx) (col (d1 ! j) idx) =
                    Inr (cross_correlation (col (d0 ! i) idx) (col (d1 ! j) idx))
                  \<and> length (cross_correlation (col (d0 ! i) idx) (col (d1 ! j) idx)) = 2 * T - 1
                  \<and> (\<forall>lag < T.
                        cross_correlation (col (d0 ! i) idx) (col (d1 ! j) idx) ! (T - 1 + lag) =
                          (\<Sum>t\<leftarrow>[0..<T - lag]. d0 ! i ! (t + lag) ! idx * d1 ! j ! t ! idx)
                        \<and> cross_correlation (col (d0 ! i) idx) (col (d1 ! j) idx) ! (T - 1 - lag) =
                          (\<Sum>t\<leftarrow>[0..<T - lag]. d0 ! i ! t ! idx * d1 ! j ! (t + lag) ! idx))))
       \<and> length (full_correlation T d0 d1) = 2 * T - 1
       \<and> (\<exists>self'. ensemble_operation self data dict_ref same_species = Inr self'
            \<and> vacf self' = drop (T - 1) (full_correlation T d0 d1)
            \<and> length (vacf self') = T)"
proof (intro conjI)
  show "\<forall>(i, j) \<in> set (index_pairs (length d0) (length d1)).
            pair_correlation (d0 ! i) (d1 ! j) =
              Inr (map (\<lambda>k. cross_correlation (col (d0 ! i) 0) (col (d1 ! j) 0) ! k
                           + cross_correlation (col (d0 ! i) 1) (col (d1 ! j) 1) ! k
                           + cross_correlation (col (d0 ! i) 2) (col (d1 ! j) 2) ! k) [0..<2 * T - 1])
            \<and> (\<forall>idx < 3.
                  correlate (col (d0 ! i) idx) (col (d1 ! j) idx) =
                    Inr (cross_correlation (col (d0 ! i) idx) (col (d1 ! j) idx))
                  \<and> length (cross_correlation (col (d0 ! i) idx) (col (d1 ! j) idx)) = 2 * T - 1
                  \<and> (\<forall>lag < T.
                        cross_correlation (col (d0 ! i) idx) (col (d1 ! j) idx) ! (T - 1 + lag) =
                          (\<Sum>t\<leftarrow>[0..<T - lag]. d0 ! i ! (t + lag) ! idx * d1 ! j ! t ! idx)
                        \<and> cross_correlation (col (d0 ! i) idx) (col (d1 ! j) idx) ! (T - 1 - lag) =
                          (\<Sum>t\<leftarrow>[0..<T - lag]. d0 ! i ! t ! idx * d1 ! j ! (t + lag) ! idx)))"
  proof (clarify, intro conjI allI impI)
    fix i j
    assume "(i, j) \<in> set (index_pairs (length d0) (length d1))"
    then have ij: "i < length d0" "j < length d1"
      by (auto simp: index_pairs_def)
    have sh: "length (d0 ! i) = T" "length (d1 ! j) = T"
      "list_all (\<lambda>row. length row = 3) (d0 ! i)" "list_all (\<lambda>row. length row = 3) (d1 ! j)"
      using assms(7,8) ij by (auto simp: has_shape_def list_all_length)
    have "pair_correlation (d0 ! i) (d1 ! j) = Inr (map (dim_sum (d0 ! i) (d1 ! j)) [0..<2 * T - 1])"
      using sh assms(2) by (intro pair_correlation_ok) auto
    then show "pair_correlation (d0 ! i) (d1 ! j) =
              Inr (map (\<lambda>k. cross_correlation (col (d0 ! i) 0) (col (d1 ! j) 0) ! k
                           + cross_correlation (col (d0 ! i) 1) (col (d1 ! j) 1) ! k
                           + cross_correlation (col (d0 ! i) 2) (col (d1 ! j) 2) ! k) [0..<2 * T - 1])"
      by (simp add: dim_sum_def upt_3 cong: map_cong)
    fix idx :: nat
    show "correlate (col (d0 ! i) idx) (col (d1 ! j) idx) =
            Inr (cross_correlation (col (d0 ! i) idx) (col (d1 ! j) idx))"
      using sh assms(2) by (auto simp add: correlate_def)
    show "length (cross_correlation (col (d0 ! i) idx) (col (d1 ! j) idx)) = 2 * T - 1"
      using sh assms(2) by (subst length_correlate) auto
    fix lag
    assume "lag < T"
    from col_correlate_entries[OF sh(1,2) this]
    show "cross_correlation (col (d0 ! i) idx) (col (d1 ! j) idx) ! (T - 1 + lag) =
            (\<Sum>t\<leftarrow>[0..<T - lag]. d0 ! i ! (t + lag) ! idx * d1 ! j ! t ! idx)"
      and "cross_correlation (col (d0 ! i) idx) (col (d1 ! j) idx) ! (T - 1 - lag) =
            (\<Sum>t\<leftarrow>[0..<T - lag]. d0 ! i ! t ! idx * d1 ! j ! (t + lag) ! idx)"
      by simp_all
  qed
  show "length (full_correlation T d0 d1) = 2 * T - 1" by simp
  show "\<exists>self'. ensemble_operation self data dict_ref same_species = Inr self'
            \<and> vacf self' = drop (T - 1) (full_correlation T d0 d1)
            \<and> length (vacf self') = T"
    using ensemble_operation_ok[OF assms, of same_species] assms(2) by simp
qed

lemma ex_lookup:
  "py_index [''Na/Velocities'', ''Cl/Velocities''] 0 = Inr ''Na/Velocities''"
  "py_index [''Na/Velocities'', ''Cl/Velocities''] 1 = Inr ''Cl/Velocities''"
  "ex_ensemble ''Na/Velocities'' = Some [ex_a, ex_c]"
  "ex_ensemble ''Cl/Velocities'' = Some [ex_c, ex_b]"
  "data_range ex_calculator = int 2"
  "length (time ex_calculator) = 2"
  by (simp_all add: py_index_def ex_ensemble_def ex_calculator_def)

lemma ex_index_pairs: "index_pairs (length [ex_a, ex_c]) (length [ex_c, ex_b]) = [(0, 1)]"
  by (simp add: index_pairs_def upt_rec)

lemma ex_dim_sums:
  "map (\<lambda>k. cross_correlation (col ex_a 0) (col ex_b 0) ! k + cross_correlation (col ex_a 1) (col ex_b 1) ! k
            + cross_correlation (col ex_a 2) (col ex_b 2) ! k) [0..<2 * 2 - 1] = [8, 5, 7]"
  by (simp add: cross_correlation_def col_def ex_a_def ex_b_def upt_rec)

theorem ensemble_operation_one_sided_witness:
  "data_range ex_calculator = int 2 \<and> has_shape 2 [ex_a, ex_c] \<and> has_shape 2 [ex_c, ex_b]
   \<and> pair_correlation ex_a ex_b = Inr [8, 5, 7]
   \<and> (\<exists>self'. ensemble_operation ex_calculator ex_ensemble
                  [''Na/Velocities'', ''Cl/Velocities''] False = Inr self'
        \<and> vacf self' = [5, 7] \<and> length (vacf self') = 2)"
proof -
  note inst = ensemble_operation_one_sided[OF ex_lookup(5) _ ex_lookup(1,2,3,4) ex_shapes ex_lookup(6),
      of False, simplified ex_index_pairs ex_full_correlation]
  have "pair_correlation ex_a ex_b = Inr [8, 5, 7]"
    using inst ex_dim_sums by simp
  moreover have "\<exists>self'. ensemble_operation ex_calculator ex_ensemble
                  [''Na/Velocities'', ''Cl/Velocities''] False = Inr self'
        \<and> vacf self' = [5, 7] \<and> length (vacf self') = 2"
    using inst by simp
  ultimately show ?thesis
    using ex_lookup(5) ex_shapes by simp
qed

lemma dim_sum_lag_zero:
  assumes "length a = T" "length b = T" "0 < T"
  shows "dim_sum a b (T - 1) = (\<Sum>idx\<leftarrow>[0..<3]. \<Sum>t\<leftarrow>[0..<T]. a ! t ! idx * b ! t ! idx)"
proof -
  have "cross_correlation (col a idx) (col b idx) ! (T - 1) = (\<Sum>t\<leftarrow>[0..<T]. a ! t ! idx * b ! t ! idx)"
    for idx
  proof -
    have "cross_correlation (col a idx) (col b idx) ! (T - 1 + 0) =
          (\<Sum>t\<leftarrow>[0..<T - 0]. col a idx ! (t + 0) * col b idx ! t)"
      using assms by (intro correlate_lag) auto
    also have "\<dots> = (\<Sum>t\<leftarrow>[0..<T]. a ! t ! idx * b ! t ! idx)"
      using assms by (auto intro!: arg_cong[where f=sum_list] map_cong simp: col_def)
    finally show ?thesis by simp
  qed
  then show ?thesis by (simp add: dim_sum_def)
qed

lemma full_correlation_lag_zero:
  assumes "has_shape T d0" "has_shape T d1" "0 < T"
  shows "full_correlation T d0 d1 ! (T - 1) =
         (\<Sum>(i, j)\<leftarrow>index_pairs (length d0) (length d1).
            \<Sum>idx\<leftarrow>[0..<3]. \<Sum>t\<leftarrow>[0..<T]. d0 ! i ! t ! idx * d1 ! j ! t ! idx)"
proof -
  have "full_correlation T d0 d1 ! (T - 1) =
        (\<Sum>(i, j)\<leftarrow>index_pairs (length d0) (length d1). dim_sum (d0 ! i) (d1 ! j) (T - 1))"
  proof -
    have "T - 1 < length [0..<2 * T - 1]" using assms(3) by simp
    then have "full_correlation T d0 d1 ! (T - 1) =
          (\<lambda>k. \<Sum>(i, j)\<leftarrow>index_pairs (length d0) (length d1). dim_sum (d0 ! i) (d1 ! j) k)
            ([0..<2 * T - 1] ! (T - 1))"
      unfolding full_correlation_def by (rule nth_map)
    also have "[0..<2 * T - 1] ! (T - 1) = T - 1" using assms(3) by simp
    finally show ?thesis .
  qed
  also have "\<dots> = (\<Sum>(i, j)\<leftarrow>index_pairs (length d0) (length d1).
            \<Sum>idx\<leftarrow>[0..<3]. \<Sum>t\<leftarrow>[0..<T]. d0 ! i ! t ! idx * d1 ! j ! t ! idx)"
  proof (intro arg_cong[where f=sum_list] map_cong refl)
    fix p assume "p \<in> set (index_pairs (length d0) (length d1))"
    then obtain i j where p: "p = (i, j)" "i < length d0" "j < length d1"
      by (auto simp: index_pairs_def)
    then have "length (d0 ! i) = T" "length (d1 ! j) = T"
      using assms by (auto simp: has_shape_def list_all_length)
    from dim_sum_lag_zero[OF this assms(3)] show "(case p of (i, j) \<Rightarrow> dim_sum (d0 ! i) (d1 ! j) (T - 1)) =
               (case p of (i, j) \<Rightarrow> \<Sum>idx\<leftarrow>[0..<3]. \<Sum>t\<leftarrow>[0..<T]. d0 ! i ! t ! idx * d1 ! j ! t ! idx)"
      using p by simp
  qed
  finally show ?thesis .
qed

text \<open>
  C3: the one-sided correlation stored by the operation (cross-species call, no
  skipping) has at lag \<open>0\<close> the sum over the three dimensions and all time steps of
  \<open>a[t] * b[t]\<close>, for every correlated pair of signals \<open>a\<close> and \<open>b\<close> and hence, summed
  over the visited pairs, for the whole ensemble.
\<close>

theorem ensemble_operation_lag_zero:
  assumes "data_range self = int T" "0 < T"
    and "py_index dict_ref 0 = Inr r0" "py_index dict_ref 1 = Inr r1"
    and "data r0 = Some d0" "data r1 = Some d1"
    and "has_shape T d0" "has_shape T d1"
    and "length (time self) = T"
  shows "(\<forall>(i, j) \<in> set (index_pairs (length d0) (length d1)).
            \<exists>c. pair_correlation (d0 ! i) (d1 ! j) = Inr c
              \<and> drop (T - 1) c ! 0 =
                  (\<Sum>idx\<leftarrow>[0..<3]. \<Sum>t\<leftarrow>[0..<T]. d0 ! i ! t ! idx * d1 ! j ! t ! idx))
       \<and> (\<exists>self'. ensemble_operation self data dict_ref False = Inr self'
            \<and> vacf self' ! 0 =
                (\<Sum>(i, j)\<leftarrow>index_pairs (length d0) (length d1).
                   \<Sum>idx\<leftarrow>[0..<3]. \<Sum>t\<leftarrow>[0..<T]. d0 ! i ! t ! idx * d1 ! j ! t ! idx))"
proof (intro conjI)
  show "\<forall>(i, j) \<in> set (index_pairs (length d0) (length d1)).
            \<exists>c. pair_correlation (d0 ! i) (d1 ! j) = Inr c
              \<and> drop (T - 1) c ! 0 =
                  (\<Sum>idx\<leftarrow>[0..<3]. \<Sum>t\<leftarrow>[0..<T]. d0 ! i ! t ! idx * d1 ! j ! t ! idx)"
  proof clarify
    fix i j
    assume "(i, j) \<in> set (index_pairs (length d0) (length d1))"
    then have ij: "i < length d0" "j < length d1"
      by (auto simp: index_pairs_def)
    have sh: "length (d0 ! i) = T" "length (d1 ! j) = T"
      "list_all (\<lambda>row. length row = 3) (d0 ! i)" "list_all (\<lambda>row. length row = 3) (d1 ! j)"
      using assms(7,8) ij by (auto simp: has_shape_def list_all_length)
    have "pair_correlation (d0 ! i) (d1 ! j) = Inr (map (dim_sum (d0 ! i) (d1 ! j)) [0..<2 * T - 1])"
      using sh assms(2) by (intro pair_correlation_ok) auto
    moreover have "drop (T - 1) (map (dim_sum (d0 ! i) (d1 ! j)) [0..<2 * T - 1]) ! 0 =
                   dim_sum (d0 ! i) (d1 ! j) (T - 1)"
      using assms(2) by simp
    ultimately show "\<exists>c. pair_correlation (d0 ! i) (d1 ! j) = Inr c
              \<and> drop (T - 1) c ! 0 =
                  (\<Sum>idx\<leftarrow>[0..<3]. \<Sum>t\<leftarrow>[0..<T]. d0 ! i ! t ! idx * d1 ! j ! t ! idx)"
      using dim_sum_lag_zero[OF sh(1,2) assms(2)] by simp
  qed
  have "drop (T - 1) (full_correlation T d0 d1) ! 0 = full_correlation T d0 d1 ! (T - 1)"
    using assms(2) by simp
  then show "\<exists>self'. ensemble_operation self data dict_ref False = Inr self'
            \<and> vacf self' ! 0 =
                (\<Sum>(i, j)\<leftarrow>index_pairs (length d0) (length d1).
                   \<Sum>idx\<leftarrow>[0..<3]. \<Sum>t\<leftarrow>[0..<T]. d0 ! i ! t ! idx * d1 ! j ! t ! idx)"
    using ensemble_operation_ok[OF assms, of False] full_correlation_lag_zero[OF assms(7,8,2)]
    by simp
qed

lemma ex_dot: "(\<Sum>idx\<leftarrow>[0..<3]. \<Sum>t\<leftarrow>[0..<2]. ex_a ! t ! idx * ex_b ! t ! idx) = 5"
  by (simp add: ex_a_def ex_b_def upt_rec)

theorem ensemble_operation_lag_zero_witness:
  "data_range ex_calculator = int 2 \<and> has_shape 2 [ex_a, ex_c] \<and> has_shape 2 [ex_c, ex_b]
   \<and> (\<exists>c. pair_correlation ex_a ex_b = Inr c \<and> drop (2 - 1) c ! 0 = 5)
   \<and> (\<exists>self'. ensemble_operation ex_calculator ex_ensemble
                  [''Na/Velocities'', ''Cl/Velocities''] False = Inr self'
        \<and> vacf self' ! 0 = 5)"
proof -
  note inst = ensemble_operation_lag_zero[OF ex_lookup(5) _ ex_lookup(1,2,3,4) ex_shapes ex_lookup(6),
      simplified ex_index_pairs]
  have "\<exists>c. pair_correlation ex_a ex_b = Inr c \<and> drop (2 - 1) c ! 0 = 5"
    using inst ex_dot by simp
  moreover have "\<exists>self'. ensemble_operation ex_calculator ex_ensemble
                  [''Na/Velocities'', ''Cl/Velocities''] False = Inr self' \<and> vacf self' ! 0 = 5"
    using inst ex_dot by simp
  ultimately show ?thesis
    using ex_lookup(5) ex_shapes by simp
qed

lemma set_index_pairs:
  "set (index_pairs n0 n1) = {(i, j). i < n0 \<and> i < j \<and> j < n1}"
  by (auto simp: index_pairs_def)

lemma index_pairs_Suc:
  "index_pairs (Suc n0) n1 = index_pairs n0 n1 @ map (Pair n0) [n0 + 1..<n1]"
  by (simp add: index_pairs_def)

lemma distinct_index_pairs: "distinct (index_pairs n0 n1)"
proof (induction n0)
  case 0
  then show ?case by (simp add: index_pairs_def)
next
  case (Suc n0)
  have "distinct (map (Pair n0) [n0 + 1..<n1])"
    by (simp add: distinct_map inj_on_def)
  moreover have "set (index_pairs n0 n1) \<inter> set (map (Pair n0) [n0 + 1..<n1]) = {}"
    by (auto simp: set_index_pairs)
  ultimately show ?case
    using Suc by (simp add: index_pairs_Suc)
qed

text \<open>
  C10: whatever the value of \<open>same_species\<close>, the accumulated correlation and the
  integral sample of one ensemble are built from the particle-index pairs \<open>(i, j)\<close> of the
  double loop and from nothing else; these are exactly the pairs with \<open>j > i\<close> in range,
  each visited once, and never both a pair and its reverse.
\<close>

theorem ensemble_operation_index_pairs:
  assumes "data_range self = int T" "0 < T"
    and "py_index dict_ref 0 = Inr r0" "py_index dict_ref 1 = Inr r1"
    and "data r0 = Some d0" "data r1 = Some d1"
    and "has_shape T d0" "has_shape T d1"
    and "length (time self) = T"
  shows "(\<exists>self'. ensemble_operation self data dict_ref same_species = Inr self'
            \<and> vacf self' =
                drop (T - 1)
                  (map (\<lambda>k. \<Sum>(i, j)\<leftarrow>index_pairs (length d0) (length d1).
                               dim_sum (d0 ! i) (d1 ! j) k) [0..<2 * T - 1])
            \<and> sigma self' = sigma self @ [trapezoid (vacf self') (time self)])
       \<and> set (index_pairs (length d0) (length d1)) =
           {(i, j). i < length d0 \<and> i < j \<and> j < length d1}
       \<and> distinct (index_pairs (length d0) (length d1))
       \<and> (\<forall>(i, j) \<in> set (index_pairs (length d0) (length d1)).
             i < j \<and> (j, i) \<notin> set (index_pairs (length d0) (length d1)))"
proof (intro conjI)
  show "\<exists>self'. ensemble_operation self data dict_ref same_species = Inr self'
            \<and> vacf self' =
                drop (T - 1)
                  (map (\<lambda>k. \<Sum>(i, j)\<leftarrow>index_pairs (length d0) (length d1).
                               dim_sum (d0 ! i) (d1 ! j) k) [0..<2 * T - 1])
            \<and> sigma self' = sigma self @ [trapezoid (vacf self') (time self)]"
    using ensemble_operation_ok[OF assms, of same_species]
    by (simp add: full_correlation_def)
  show "set (index_pairs (length d0) (length d1)) =
           {(i, j). i < length d0 \<and> i < j \<and> j < length d1}"
    by (rule set_index_pairs)
  show "distinct (index_pairs (length d0) (length d1))"
    by (rule distinct_index_pairs)
  show "\<forall>(i, j) \<in> set (index_pairs (length d0) (length d1)).
             i < j \<and> (j, i) \<notin> set (index_pairs (length d0) (length d1))"
    by (auto simp: set_index_pairs)
qed

lemma ex_one_sided:
  "drop (2 - 1)
     (map (\<lambda>k. \<Sum>(i, j)\<leftarrow>index_pairs (length [ex_a, ex_c]) (length [ex_c, ex_b]).
                  dim_sum ([ex_a, ex_c] ! i) ([ex_c, ex_b] ! j) k) [0..<2 * 2 - 1]) = [5, 7]"
  using ex_full_correlation by (simp add: full_correlation_def)

theorem ensemble_operation_index_pairs_witness:
  "data_range ex_calculator = int 2 \<and> has_shape 2 [ex_a, ex_c] \<and> has_shape 2 [ex_c, ex_b]
   \<and> index_pairs (length [ex_a, ex_c]) (length [ex_c, ex_b]) = [(0, 1)]
   \<and> (\<exists>self'. ensemble_operation ex_calculator ex_ensemble
                  [''Na/Velocities'', ''Cl/Velocities''] True = Inr self'
        \<and> vacf self' = [5, 7] \<and> sigma self' = [6])"
proof -
  note inst = ensemble_operation_index_pairs[OF ex_lookup(5) _ ex_lookup(1,2,3,4) ex_shapes ex_lookup(6),
      of True]
  have "\<exists>self'. ensemble_operation ex_calculator ex_ensemble
                  [''Na/Velocities'', ''Cl/Velocities''] True = Inr self'
        \<and> vacf self' = [5, 7] \<and> sigma self' = [6]"
    using inst ex_one_sided ex_trapezoid by (auto simp: ex_calculator_def)
  then show ?thesis
    using ex_lookup(5) ex_shapes ex_index_pairs by simp
qed

section \<open>The calculator loop\<close>

lemma rbind_eq_Inr:
  "rbind m f = Inr y \<longleftrightarrow> (\<exists>x. m = Inr x \<and> f x = Inr y)"
  by (cases m) simp_all

lemma for_loop_invariant:
  assumes "for_loop body s xs = Inr s'" "P s"
    and "\<And>s x s'. x \<in> set xs \<Longrightarrow> P s \<Longrightarrow> body s x = Inr s' \<Longrightarrow> P s'"
  shows "P s'"
  using assms
proof (induction xs arbitrary: s)
  case Nil
  then show ?case by simp
next
  case (Cons x xs)
  from Cons.prems(1) obtain s1 where s1: "body s x = Inr s1" "for_loop body s1 xs = Inr s'"
    by (auto simp: rbind_eq_Inr)
  have "P s1" using Cons.prems(2,3) s1(1) by auto
  with s1(2) show ?case
    using Cons.prems(3) by (intro Cons.IH) auto
qed

lemma ensemble_operation_frame:
  assumes "ensemble_operation s d r b = Inr s'"
  shows "s' = s\<lparr>vacf := vacf s', sigma := sigma s'\<rparr>"
  using assms by (auto simp: ensemble_operation_def rbind_eq_Inr)

lemma calculate_prefactor_value:
  assumes "species_n_particles (the_experiment self) a = Some na"
    and "species_n_particles (the_experiment self) b = Some nb"
    and "units_time (the_experiment self) \<noteq> 0" "data_range self \<noteq> 1"
    and "(if a = b then na * (na - 1) else na * nb) \<noteq> 0"
  shows "calculate_prefactor self (a, b) =
         Inr (self\<lparr>prefactor :=
                (units_length (the_experiment self))\<^sup>2 /
                (3 * units_time (the_experiment self) * of_int (data_range self - 1)
                   * of_int (if a = b then na * (na - 1) else na * nb))\<rparr>)"
proof (cases "a = b")
  case True
  with assms(1,2) have "nb = na" by simp
  with True assms show ?thesis
    by (simp add: calculate_prefactor_def n_particles_def py_getitem_def Let_def)
next
  case False
  with assms show ?thesis
    by (simp add: calculate_prefactor_def n_particles_def py_getitem_def Let_def)
qed

lemma batch_loop_frame:
  assumes "batch_loop env s sv refs = Inr s'"
  shows "s' = s\<lparr>vacf := vacf s', sigma := sigma s'\<rparr>"
proof -
  let ?P = "\<lambda>t. t = s\<lparr>vacf := vacf t, sigma := sigma t\<rparr>"
  have inner: "?P t'" if "for_loop (\<lambda>s' ens. ensemble_operation s' ens refs False) t es = Inr t'" "?P t"
    for t t' es
  proof (rule for_loop_invariant[OF that(1), where P = ?P])
    show "?P t" by (rule that(2))
  next
    fix a e a'
    assume "?P a" "ensemble_operation a e refs False = Inr a'"
    then show "?P a'"
      using ensemble_operation_frame[of a e refs False a']
      by (metis (no_types, lifting) calculator.surjective calculator.update_convs(3,4))
  qed
  show ?thesis
  proof (rule for_loop_invariant[OF assms[unfolded batch_loop_def], where P = ?P])
    show "?P s" by simp
  next
    fix a x a'
    assume "?P a" "for_loop (\<lambda>s' ens. ensemble_operation s' ens refs False) a
                     (get_ensemble_dataset env x sv) = Inr a'"
    then show "?P a'" using inner by blast
  qed
qed

lemma batch_loop_fields:
  assumes "batch_loop env s sv refs = Inr s'"
  shows "data_range s' = data_range s" "time s' = time s"
    "the_experiment s' = the_experiment s" "minibatch s' = minibatch s"
    "n_batches s' = n_batches s" "queue s' = queue s" "bars s' = bars s"
    "combinations s' = combinations s" "prefactor s' = prefactor s"
proof -
  note f = batch_loop_frame[OF assms]
  show "data_range s' = data_range s" using arg_cong[OF f, of data_range] by simp
  show "time s' = time s" using arg_cong[OF f, of time] by simp
  show "the_experiment s' = the_experiment s" using arg_cong[OF f, of the_experiment] by simp
  show "minibatch s' = minibatch s" using arg_cong[OF f, of minibatch] by simp
  show "n_batches s' = n_batches s" using arg_cong[OF f, of n_batches] by simp
  show "queue s' = queue s" using arg_cong[OF f, of queue] by simp
  show "bars s' = bars s" using arg_cong[OF f, of bars] by simp
  show "combinations s' = combinations s" using arg_cong[OF f, of combinations] by simp
  show "prefactor s' = prefactor s" using arg_cong[OF f, of prefactor] by simp
qed

lemma calculate_prefactor_frame:
  assumes "calculate_prefactor s c = Inr s'"
  shows "s' = s\<lparr>prefactor := prefactor s'\<rparr>"
  using assms
  by (auto simp: calculate_prefactor_def rbind_eq_Inr Let_def split: if_splits)

lemma run_combination_InrD:
  assumes "run_combination env self c = Inr self'"
  obtains s1 s2 where
    "batch_loop env
       (self\<lparr>bars := bars self @ [\<lparr>ncols = 70, desc = fst c @ ''-'' @ snd c,
                                    total = n_batches self, disable = minibatch self\<rparr>]\<rparr>)
       [fst c, snd c] [fst c @ ''/'' @ property_name env, snd c @ ''/'' @ property_name env] = Inr s1"
    "calculate_prefactor s1 c = Inr s2"
    "self' = (post_operation_processes s2 c)\<lparr>sigma := []\<rparr>"
  using assms by (auto simp: run_combination_def Let_def rbind_eq_Inr)

lemma run_combination_fields:
  assumes "run_combination env self c = Inr self'"
  shows "data_range self' = data_range self" "time self' = time self"
    "the_experiment self' = the_experiment self" "minibatch self' = minibatch self"
    "n_batches self' = n_batches self" "combinations self' = combinations self"
    "sigma self' = []"
    "bars self' = bars self @ [\<lparr>ncols = 70, desc = fst c @ ''-'' @ snd c,
                                total = n_batches self, disable = minibatch self\<rparr>]"
    "length (queue self') = Suc (length (queue self))"
proof -
  from assms obtain s1 s2 where
    s1: "batch_loop env
       (self\<lparr>bars := bars self @ [\<lparr>ncols = 70, desc = fst c @ ''-'' @ snd c,
                                    total = n_batches self, disable = minibatch self\<rparr>]\<rparr>)
       [fst c, snd c] [fst c @ ''/'' @ property_name env, snd c @ ''/'' @ property_name env] = Inr s1"
    and s2: "calculate_prefactor s1 c = Inr s2"
    and s': "self' = (post_operation_processes s2 c)\<lparr>sigma := []\<rparr>"
    by (rule run_combination_InrD)
  note b = batch_loop_fields[OF s1]
  note p = calculate_prefactor_frame[OF s2]
  show "data_range self' = data_range self"
    using b(1) arg_cong[OF p, of data_range] by (simp add: s' post_operation_processes_def Let_def)
  show "time self' = time self"
    using b(2) arg_cong[OF p, of time] by (simp add: s' post_operation_processes_def Let_def)
  show "the_experiment self' = the_experiment self"
    using b(3) arg_cong[OF p, of the_experiment] by (simp add: s' post_operation_processes_def Let_def)
  show "minibatch self' = minibatch self"
    using b(4) arg_cong[OF p, of minibatch] by (simp add: s' post_operation_processes_def Let_def)
  show "n_batches self' = n_batches self"
    using b(5) arg_cong[OF p, of n_batches] by (simp add: s' post_operation_processes_def Let_def)
  show "combinations self' = combinations self"
    using b(8) arg_cong[OF p, of combinations] by (simp add: s' post_operation_processes_def Let_def)
  show "sigma self' = []"
    by (simp add: s')
  show "bars self' = bars self @ [\<lparr>ncols = 70, desc = fst c @ ''-'' @ snd c,
                                total = n_batches self, disable = minibatch self\<rparr>]"
    using b(7) arg_cong[OF p, of bars] by (simp add: s' post_operation_processes_def Let_def)
  show "length (queue self') = Suc (length (queue self))"
    using b(6) arg_cong[OF p, of queue] by (simp add: s' post_operation_processes_def Let_def)
qed

lemma combinations_loop_bars:
  assumes "for_loop (run_combination env) s cs = Inr s'"
  shows "bars s' = bars s @ map (\<lambda>c. \<lparr>ncols = 70, desc = fst c @ ''-'' @ snd c,
                                     total = n_batches s, disable = minibatch s\<rparr>) cs
         \<and> minibatch s' = minibatch s \<and> n_batches s' = n_batches s"
  using assms
proof (induction cs arbitrary: s)
  case Nil
  then show ?case by simp
next
  case (Cons c cs)
  from Cons.prems obtain s1 where
    s1: "run_combination env s c = Inr s1" "for_loop (run_combination env) s1 cs = Inr s'"
    by (auto simp: rbind_eq_Inr)
  note f = run_combination_fields[OF s1(1)]
  from Cons.IH[OF s1(2)] show ?case
    by (simp add: f)
qed

text \<open>
  C9: a run opens one progress bar per combination, and every one of them is created
  with \<open>disable\<close> equal to the memory manager's \<open>minibatch\<close> flag, which the run does not
  change: with minibatching the bars are disabled, without it they are shown.
\<close>

theorem run_calculator_progress_bars:
  assumes "run_calculator env self = Inr self'"
  shows "bars self' =
           bars self @ map (\<lambda>c. \<lparr>ncols = 70, desc = fst c @ ''-'' @ snd c,
                                  total = n_batches self, disable = minibatch self\<rparr>)
                         (combinations self)
         \<and> list_all (\<lambda>bar. disable bar = minibatch self) (drop (length (bars self)) (bars self'))
         \<and> minibatch self' = minibatch self"
proof -
  have b: "bars self' =
           bars self @ map (\<lambda>c. \<lparr>ncols = 70, desc = fst c @ ''-'' @ snd c,
                                  total = n_batches self, disable = minibatch self\<rparr>)
                         (combinations self)"
    and m: "minibatch self' = minibatch self"
    using combinations_loop_bars[OF assms[unfolded run_calculator_def]] by simp_all
  show ?thesis
    by (simp add: b m list_all_iff)
qed

lemmas ex_eval = ensemble_operation_def np_zeros_def pair_loop_def py_index_def py_getitem_def
  pair_correlation_def column_def py_sum_def np_broadcast_def correlate_def cross_correlation_def
  ex_a_def ex_b_def ex_c_def upt_rec np_iadd_def py_slice_from_def np_trapz_def np_diff_def
  eval_nat_numeral ex_ensemble_def ex_ensemble2_def

lemma ex_operation_Na_Na:
  assumes "data_range s = 2" "time s = [0, 1]"
  shows "ensemble_operation s ex_ensemble [''Na/Velocities'', ''Na/Velocities''] False =
           Inr (s\<lparr>vacf := [7, 4], sigma := sigma s @ [11 / 2]\<rparr>)"
    and "ensemble_operation s ex_ensemble2 [''Na/Velocities'', ''Na/Velocities''] False =
           Inr (s\<lparr>vacf := [5, 8], sigma := sigma s @ [13 / 2]\<rparr>)"
  using assms by (simp_all add: ex_eval)

lemma ex_operation_Na_Cl:
  assumes "data_range s = 2" "time s = [0, 1]"
  shows "ensemble_operation s ex_ensemble [''Na/Velocities'', ''Cl/Velocities''] False =
           Inr (s\<lparr>vacf := [5, 7], sigma := sigma s @ [6]\<rparr>)"
    and "ensemble_operation s ex_ensemble2 [''Na/Velocities'', ''Cl/Velocities''] False =
           Inr (s\<lparr>vacf := [9, 5], sigma := sigma s @ [7]\<rparr>)"
  using assms by (simp_all add: ex_eval)

lemma ex_operation_Cl_Cl:
  assumes "data_range s = 2" "time s = [0, 1]"
  shows "ensemble_operation s ex_ensemble [''Cl/Velocities'', ''Cl/Velocities''] False =
           Inr (s\<lparr>vacf := [9, 4], sigma := sigma s @ [13 / 2]\<rparr>)"
    and "ensemble_operation s ex_ensemble2 [''Cl/Velocities'', ''Cl/Velocities''] False =
           Inr (s\<lparr>vacf := [7, 4], sigma := sigma s @ [11 / 2]\<rparr>)"
  using assms by (simp_all add: ex_eval)

lemma ex_batch_loop:
  assumes "data_range s = 2" "time s = [0, 1]"
  shows "batch_loop ex_env s [''Na'', ''Na''] [''Na/Velocities'', ''Na/Velocities''] =
           Inr (s\<lparr>vacf := [5, 8], sigma := sigma s @ [11 / 2, 13 / 2]\<rparr>)"
    and "batch_loop ex_env s [''Na'', ''Cl''] [''Na/Velocities'', ''Cl/Velocities''] =
           Inr (s\<lparr>vacf := [9, 5], sigma := sigma s @ [6, 7]\<rparr>)"
    and "batch_loop ex_env s [''Cl'', ''Cl''] [''Cl/Velocities'', ''Cl/Velocities''] =
           Inr (s\<lparr>vacf := [7, 4], sigma := sigma s @ [13 / 2, 11 / 2]\<rparr>)"
  using assms
  by (simp_all add: batch_loop_def ex_env_def ex_operation_Na_Na ex_operation_Na_Cl ex_operation_Cl_Cl)

lemma ex_prefactor:
  assumes "data_range s = 2" "the_experiment s = ex_experiment"
  shows "calculate_prefactor s (''Na'', ''Na'') = Inr (s\<lparr>prefactor := 1 / 6\<rparr>)"
    and "calculate_prefactor s (''Na'', ''Cl'') = Inr (s\<lparr>prefactor := 1 / 12\<rparr>)"
    and "calculate_prefactor s (''Cl'', ''Cl'') = Inr (s\<lparr>prefactor := 1 / 6\<rparr>)"
  using assms
  by (simp_all add: calculate_prefactor_def n_particles_def py_getitem_def ex_experiment_def Let_def)

lemma ex_property_name: "property_name ex_env = ''Velocities''"
  by (simp add: ex_env_def)

lemma ex_run_combination:
  assumes "data_range s = 2" "time s = [0, 1]" "the_experiment s = ex_experiment"
  shows "run_combination ex_env s (''Na'', ''Na'') =
           Inr ((post_operation_processes
                   (s\<lparr>bars := bars s @ [\<lparr>ncols = 70, desc = ''Na-Na'', total = n_batches s,
                                           disable = minibatch s\<rparr>],
                      vacf := [5, 8], sigma := sigma s @ [11 / 2, 13 / 2], prefactor := 1 / 6\<rparr>)
                   (''Na'', ''Na''))\<lparr>sigma := []\<rparr>)"
    and "run_combination ex_env s (''Na'', ''Cl'') =
           Inr ((post_operation_processes
                   (s\<lparr>bars := bars s @ [\<lparr>ncols = 70, desc = ''Na-Cl'', total = n_batches s,
                                           disable = minibatch s\<rparr>],
                      vacf := [9, 5], sigma := sigma s @ [6, 7], prefactor := 1 / 12\<rparr>)
                   (''Na'', ''Cl''))\<lparr>sigma := []\<rparr>)"
    and "run_combination ex_env s (''Cl'', ''Cl'') =
           Inr ((post_operation_processes
                   (s\<lparr>bars := bars s @ [\<lparr>ncols = 70, desc = ''Cl-Cl'', total = n_batches s,
                                           disable = minibatch s\<rparr>],
                      vacf := [7, 4], sigma := sigma s @ [13 / 2, 11 / 2], prefactor := 1 / 6\<rparr>)
                   (''Cl'', ''Cl''))\<lparr>sigma := []\<rparr>)"
  using assms
  by (simp_all add: run_combination_def Let_def ex_property_name ex_batch_loop ex_prefactor)

lemma ex_configured:
  "data_range ex_calculator = 2" "time ex_calculator = [0, 1]"
  "the_experiment ex_calculator = ex_experiment" "sigma ex_calculator = []"
  "minibatch ex_calculator = False" "bars ex_calculator = []"
  "combinations ex_calculator = [(''Na'', ''Na''), (''Na'', ''Cl''), (''Cl'', ''Cl'')]"
  by (simp_all add: ex_calculator_def)

lemma ex_run_calculator: "\<exists>self'. run_calculator ex_env ex_calculator = Inr self'"
  by (simp add: run_calculator_def ex_configured ex_run_combination post_operation_processes_def Let_def)

theorem run_calculator_progress_bars_witness:
  "\<exists>self'. run_calculator ex_env ex_calculator = Inr self'
     \<and> bars self' = [\<lparr>ncols = 70, desc = ''Na-Na'', total = 1, disable = False\<rparr>,
                      \<lparr>ncols = 70, desc = ''Na-Cl'', total = 1, disable = False\<rparr>,
                      \<lparr>ncols = 70, desc = ''Cl-Cl'', total = 1, disable = False\<rparr>]
     \<and> list_all (\<lambda>bar. disable bar = minibatch ex_calculator) (bars self')"
proof -
  from ex_run_calculator obtain self' where r: "run_calculator ex_env ex_calculator = Inr self'" ..
  from run_calculator_progress_bars[OF r] have
    "bars self' = [\<lparr>ncols = 70, desc = ''Na-Na'', total = 1, disable = False\<rparr>,
                      \<lparr>ncols = 70, desc = ''Na-Cl'', total = 1, disable = False\<rparr>,
                      \<lparr>ncols = 70, desc = ''Cl-Cl'', total = 1, disable = False\<rparr>]"
    "list_all (\<lambda>bar. disable bar = minibatch ex_calculator) (bars self')"
    by (simp_all add: ex_calculator_def)
  with r show ?thesis by blast
qed

section \<open>Prefactor and statistics\<close>

lemma calculate_prefactor_InrD:
  assumes "calculate_prefactor s (a, b) = Inr s'"
    and "species_n_particles (the_experiment s) a = Some na"
    and "species_n_particles (the_experiment s) b = Some nb"
  shows "prefactor s' =
           (units_length (the_experiment s))\<^sup>2 /
           (3 * units_time (the_experiment s) * of_int (data_range s - 1)
              * of_int (if a = b then na * (na - 1) else na * nb))"
proof (cases "a = b")
  case True
  with assms(2,3) have "nb = na" by simp
  with True assms show ?thesis
    by (auto simp: calculate_prefactor_def n_particles_def py_getitem_def Let_def
        split: if_splits)
next
  case False
  with assms show ?thesis
    by (auto simp: calculate_prefactor_def n_particles_def py_getitem_def Let_def
        split: if_splits)
qed

text \<open>
  C4: the prefactor of a combination \<open>(a, b)\<close> is
  \<open>length\<^sup>2 / (3 * time * (data_range - 1) * atom_scale)\<close> with the unit system's length
  and time factors, where \<open>atom_scale\<close> is \<open>n * (n - 1)\<close> for two identical species with
  \<open>n\<close> particles and \<open>n\<^sub>a * n\<^sub>b\<close> for two different ones; the body of the loop over the
  combinations computes it for its own combination, so that every successful pass
  leaves exactly this value in the calculator.
\<close>

theorem calculate_prefactor_formula:
  fixes env :: "'b collaborators"
  assumes "species_n_particles (the_experiment self) a = Some na"
    and "species_n_particles (the_experiment self) b = Some nb"
  shows "(units_time (the_experiment self) \<noteq> 0 \<and> data_range self \<noteq> 1
            \<and> (if a = b then na * (na - 1) else na * nb) \<noteq> 0 \<longrightarrow>
          calculate_prefactor self (a, b) =
            Inr (self\<lparr>prefactor :=
                   (units_length (the_experiment self))\<^sup>2 /
                   (3 * units_time (the_experiment self) * of_int (data_range self - 1)
                      * of_int (if a = b then na * (na - 1) else na * nb))\<rparr>))
       \<and> (\<forall>self'. run_combination env self (a, b) = Inr self' \<longrightarrow>
            prefactor self' =
              (units_length (the_experiment self))\<^sup>2 /
              (3 * units_time (the_experiment self) * of_int (data_range self - 1)
                 * of_int (if a = b then na * (na - 1) else na * nb)))"
proof (intro conjI allI impI)
  assume "units_time (the_experiment self) \<noteq> 0 \<and> data_range self \<noteq> 1
            \<and> (if a = b then na * (na - 1) else na * nb) \<noteq> 0"
  then show "calculate_prefactor self (a, b) =
            Inr (self\<lparr>prefactor :=
                   (units_length (the_experiment self))\<^sup>2 /
                   (3 * units_time (the_experiment self) * of_int (data_range self - 1)
                      * of_int (if a = b then na * (na - 1) else na * nb))\<rparr>)"
    using assms by (intro calculate_prefactor_value) auto
next
  fix self'
  assume run: "run_combination env self (a, b) = Inr self'"
  then obtain s1 s2 where
    s1: "batch_loop env
       (self\<lparr>bars := bars self @ [\<lparr>ncols = 70, desc = fst (a, b) @ ''-'' @ snd (a, b),
                                    total = n_batches self, disable = minibatch self\<rparr>]\<rparr>)
       [fst (a, b), snd (a, b)]
       [fst (a, b) @ ''/'' @ property_name env, snd (a, b) @ ''/'' @ property_name env] = Inr s1"
    and s2: "calculate_prefactor s1 (a, b) = Inr s2"
    and s': "self' = (post_operation_processes s2 (a, b))\<lparr>sigma := []\<rparr>"
    by (rule run_combination_InrD)
  note f = batch_loop_fields[OF s1]
  have "prefactor s2 =
           (units_length (the_experiment s1))\<^sup>2 /
           (3 * units_time (the_experiment s1) * of_int (data_range s1 - 1)
              * of_int (if a = b then na * (na - 1) else na * nb))"
    using s2 assms f(3) by (intro calculate_prefactor_InrD) auto
  then show "prefactor self' =
              (units_length (the_experiment self))\<^sup>2 /
              (3 * units_time (the_experiment self) * of_int (data_range self - 1)
                 * of_int (if a = b then na * (na - 1) else na * nb))"
    using f(1,3) by (simp add: s' post_operation_processes_def Let_def)
qed

theorem calculate_prefactor_formula_witness:
  "species_n_particles (the_experiment ex_calculator) ''Na'' = Some 2
   \<and> species_n_particles (the_experiment ex_calculator) ''Cl'' = Some 2
   \<and> calculate_prefactor ex_calculator (''Na'', ''Cl'') = Inr (ex_calculator\<lparr>prefactor := 1 / 12\<rparr>)
   \<and> calculate_prefactor ex_calculator (''Na'', ''Na'') = Inr (ex_calculator\<lparr>prefactor := 1 / 6\<rparr>)
   \<and> (\<exists>self'. run_combination ex_env ex_calculator (''Na'', ''Cl'') = Inr self'
         \<and> prefactor self' = 1 / 12)"
proof -
  have n: "species_n_particles (the_experiment ex_calculator) ''Na'' = Some 2"
    "species_n_particles (the_experiment ex_calculator) ''Cl'' = Some 2"
    by (simp_all add: ex_calculator_def ex_experiment_def)
  have u: "units_time ex_experiment = 1" "units_length ex_experiment = 1"
    by (simp_all add: ex_experiment_def)
  have "calculate_prefactor ex_calculator (''Na'', ''Cl'') = Inr (ex_calculator\<lparr>prefactor := 1 / 12\<rparr>)"
    using calculate_prefactor_formula[OF n(1) n(2), of ex_env] by (simp add: u ex_configured)
  moreover have "calculate_prefactor ex_calculator (''Na'', ''Na'') = Inr (ex_calculator\<lparr>prefactor := 1 / 6\<rparr>)"
    using calculate_prefactor_formula[OF n(1) n(1), of ex_env] by (simp add: u ex_configured)
  moreover have "\<exists>self'. run_combination ex_env ex_calculator (''Na'', ''Cl'') = Inr self'
         \<and> prefactor self' = 1 / 12"
  proof -
    obtain self' where r: "run_combination ex_env ex_calculator (''Na'', ''Cl'') = Inr self'"
      using ex_run_combination(2)[OF ex_configured(1,2,3)] by blast
    from calculate_prefactor_formula[OF n(1) n(2), of ex_env] r have "prefactor self' = 1 / 12"
      by (simp add: u ex_configured)
    with r show ?thesis by blast
  qed
  ultimately show ?thesis using n by simp
qed

lemma last_queue_post_operation:
  "snd (last (queue (post_operation_processes self c))) =
     \<lparr>diffusion_coefficient = np_mean (map (\<lambda>s. prefactor self * s) (sigma self)),
      uncertainty = np_divide (np_std (map (\<lambda>s. prefactor self * s) (sigma self)))
                      (sqrt (real (length (sigma self)))),
      time_series = time self, vacf_series = vacf self\<rparr>"
  by (simp add: post_operation_processes_def Let_def)

lemma population_std_sample_std:
  assumes "2 \<le> length xs"
  shows "population_std xs = sample_std xs * sqrt ((real (length xs) - 1) / real (length xs))"
proof -
  let ?S = "sum_list (map (\<lambda>x. (x - sum_list xs / real (length xs))\<^sup>2) xs)"
  let ?n = "real (length xs)"
  have n: "?n - 1 \<noteq> 0" "?n \<noteq> 0" using assms by auto
  have "?S / ?n = (?S / (?n - 1)) * ((?n - 1) / ?n)"
    using n by (simp add: field_simps)
  then show ?thesis
    unfolding population_std_def sample_std_def by (simp only: real_sqrt_mult)
qed

text \<open>
  C5, as the code has it: for a non-empty list of samples the emitted mean is the
  arithmetic mean of the scaled samples, and the emitted uncertainty is their population
  standard deviation (divisor \<open>n\<close>, NumPy's default) divided by the square root of their
  number; for two or more samples this is the standard error built from the sample
  standard deviation scaled by \<open>sqrt ((n - 1) / n)\<close>.
\<close>

theorem post_operation_statistics:
  assumes "sigma self \<noteq> []"
  shows "diffusion_coefficient (snd (last (queue (post_operation_processes self c)))) =
           Num (arithmetic_mean (map (\<lambda>s. prefactor self * s) (sigma self)))
       \<and> uncertainty (snd (last (queue (post_operation_processes self c)))) =
           Num (population_std (map (\<lambda>s. prefactor self * s) (sigma self))
                  / sqrt (real (length (sigma self))))
       \<and> (2 \<le> length (sigma self) \<longrightarrow>
            uncertainty (snd (last (queue (post_operation_processes self c)))) =
              Num (sample_standard_error (map (\<lambda>s. prefactor self * s) (sigma self))
                     * sqrt ((real (length (sigma self)) - 1) / real (length (sigma self)))))"
proof -
  let ?r = "map (\<lambda>s. prefactor self * s) (sigma self)"
  have ne: "?r \<noteq> []" "sqrt (real (length (sigma self))) \<noteq> 0"
    using assms by auto
  have m: "diffusion_coefficient (snd (last (queue (post_operation_processes self c)))) =
           Num (arithmetic_mean ?r)"
    using ne by (simp add: last_queue_post_operation np_mean_def arithmetic_mean_def)
  have u: "uncertainty (snd (last (queue (post_operation_processes self c)))) =
           Num (population_std ?r / sqrt (real (length (sigma self))))"
    using ne by (simp add: last_queue_post_operation np_std_def population_std_def)
  have "population_std ?r / sqrt (real (length (sigma self))) =
        sample_standard_error ?r * sqrt ((real (length (sigma self)) - 1) / real (length (sigma self)))"
    if "2 \<le> length (sigma self)"
    using population_std_sample_std[of ?r] that by (simp add: sample_standard_error_def)
  with m u show ?thesis by simp
qed

lemma ex_two_samples:
  "population_std [0, 2] = 1" "sample_std [0, 2] = sqrt 2" "arithmetic_mean [0, 2] = 1"
  by (simp_all add: population_std_def sample_std_def arithmetic_mean_def)

theorem post_operation_statistics_witness:
  "sigma (ex_calculator\<lparr>prefactor := 1, sigma := [0, 2]\<rparr>) \<noteq> []
   \<and> diffusion_coefficient (snd (last (queue (post_operation_processes
        (ex_calculator\<lparr>prefactor := 1, sigma := [0, 2]\<rparr>) (''Na'', ''Cl''))))) = Num 1
   \<and> uncertainty (snd (last (queue (post_operation_processes
        (ex_calculator\<lparr>prefactor := 1, sigma := [0, 2]\<rparr>) (''Na'', ''Cl''))))) = Num (1 / sqrt 2)"
  using post_operation_statistics[of "ex_calculator\<lparr>prefactor := 1, sigma := [0, 2]\<rparr>" "(''Na'', ''Cl'')"]
  by (simp add: ex_two_samples)

text \<open>
  C5 as stated fails on the samples \<open>0\<close> and \<open>2\<close> with prefactor \<open>1\<close>: the standard
  error built from their sample standard deviation (divisor \<open>n - 1\<close>) is \<open>1\<close>, and the
  code emits \<open>1 / sqrt 2\<close>.
\<close>

theorem sample_standard_error_counterexample:
  "uncertainty (snd (last (queue (post_operation_processes
        (ex_calculator\<lparr>prefactor := 1, sigma := [0, 2]\<rparr>) (''Na'', ''Cl''))))) \<noteq>
   Num (sample_standard_error (map (\<lambda>s. prefactor (ex_calculator\<lparr>prefactor := 1, sigma := [0, 2]\<rparr>) * s)
                                 (sigma (ex_calculator\<lparr>prefactor := 1, sigma := [0, 2]\<rparr>))))"
proof -
  have "sample_standard_error [0, 2] = 1"
    by (simp add: sample_standard_error_def ex_two_samples)
  moreover have "np_divide (np_std [0, 2]) (sqrt 2) = Num (1 / sqrt 2)"
    using ex_two_samples(1) by (simp add: np_std_def population_std_def)
  moreover have "1 / sqrt 2 \<noteq> (1::real)"
    by simp
  ultimately show ?thesis
    by (simp add: last_queue_post_operation)
qed

lemma for_loop_no_ensembles:
  assumes "list_all (\<lambda>batch. g batch = []) batches"
  shows "for_loop (\<lambda>s batch. for_loop body s (g batch)) s batches = Inr s"
  using assms by (induction batches) simp_all

lemma batch_loop_no_ensembles:
  assumes "list_all (\<lambda>batch. get_ensemble_dataset env batch sv = []) (get_batch_dataset env sv)"
  shows "batch_loop env s sv refs = Inr s"
  unfolding batch_loop_def using assms by (rule for_loop_no_ensembles)

lemma calculate_prefactor_cong:
  assumes "the_experiment s2 = the_experiment s1" "data_range s2 = data_range s1"
  shows "calculate_prefactor s2 c =
           (case calculate_prefactor s1 c of Inl e \<Rightarrow> Inl e
            | Inr t \<Rightarrow> Inr (s2\<lparr>prefactor := prefactor t\<rparr>))"
  using assms
  by (cases "species_n_particles (the_experiment s1) (fst c)";
      cases "species_n_particles (the_experiment s1) (snd c)")
     (simp_all add: calculate_prefactor_def n_particles_def py_getitem_def Let_def)

lemma calculate_prefactor_errors:
  assumes "calculate_prefactor s c = Inl e"
  shows "e = KeyError \<or> e = ZeroDivisionError"
  using assms
  by (cases "species_n_particles (the_experiment s) (fst c)";
      cases "species_n_particles (the_experiment s) (snd c)")
     (auto simp add: calculate_prefactor_def n_particles_def py_getitem_def Let_def
       split: if_splits)

text \<open>
  C7, as the code has it: when the batches of a combination hold no ensemble and the
  sample list is empty, no distinguishable state is produced for the empty sample set.
  If the prefactor can be computed, the pass over the combination raises nothing and
  queues a record whose mean and uncertainty are both \<open>nan\<close>, next to the time axis and
  whatever correlation array the calculator held before; otherwise the pass ends in the
  prefactor's own \<^verbatim>\<open>KeyError\<close> or \<^verbatim>\<open>ZeroDivisionError\<close>. The prefactor can be computed
  when both species are known and the time unit, \<open>data_range - 1\<close> and the particle-count
  factor are non-zero.
\<close>

theorem run_combination_without_ensembles:
  assumes "sigma self = []"
    and "list_all (\<lambda>batch. get_ensemble_dataset env batch [fst c, snd c] = [])
           (get_batch_dataset env [fst c, snd c])"
  shows "(\<forall>s2. calculate_prefactor self c = Inr s2 \<longrightarrow>
            (\<exists>self'. run_combination env self c = Inr self'
               \<and> queue self' = queue self @
                    [([fst c, snd c],
                      \<lparr>diffusion_coefficient = NaN, uncertainty = NaN,
                       time_series = time self, vacf_series = vacf self\<rparr>)]))
       \<and> (\<forall>e. calculate_prefactor self c = Inl e \<longrightarrow>
            run_combination env self c = Inl e \<and> (e = KeyError \<or> e = ZeroDivisionError))
       \<and> (\<forall>na nb. species_n_particles (the_experiment self) (fst c) = Some na
              \<and> species_n_particles (the_experiment self) (snd c) = Some nb
              \<and> units_time (the_experiment self) \<noteq> 0 \<and> data_range self \<noteq> 1
              \<and> (if fst c = snd c then na * (na - 1) else na * nb) \<noteq> 0 \<longrightarrow>
            (\<exists>s2. calculate_prefactor self c = Inr s2))"
proof (intro conjI allI impI)
  let ?bar = "\<lparr>ncols = 70, desc = fst c @ ''-'' @ snd c, total = n_batches self,
                disable = minibatch self\<rparr>"
  let ?s = "self\<lparr>bars := bars self @ [?bar]\<rparr>"
  have pre: "calculate_prefactor ?s c =
        (case calculate_prefactor self c of Inl e \<Rightarrow> Inl e
         | Inr t \<Rightarrow> Inr (?s\<lparr>prefactor := prefactor t\<rparr>))"
    by (rule calculate_prefactor_cong) simp_all
  have run: "run_combination env self c =
        rbind (calculate_prefactor ?s c)
          (\<lambda>s2. Inr ((post_operation_processes s2 c)\<lparr>sigma := []\<rparr>))"
    by (simp add: run_combination_def Let_def batch_loop_no_ensembles[OF assms(2)])
  {
    fix s2
    assume s2: "calculate_prefactor self c = Inr s2"
    have "run_combination env self c =
          Inr ((post_operation_processes (?s\<lparr>prefactor := prefactor s2\<rparr>) c)\<lparr>sigma := []\<rparr>)"
      unfolding run pre s2 by simp
    moreover have "queue ((post_operation_processes (?s\<lparr>prefactor := prefactor s2\<rparr>) c)\<lparr>sigma := []\<rparr>) =
          queue self @
                [([fst c, snd c],
                  \<lparr>diffusion_coefficient = NaN, uncertainty = NaN,
                   time_series = time self, vacf_series = vacf self\<rparr>)]"
      using assms(1) by (simp add: post_operation_processes_def Let_def np_mean_def np_std_def)
    ultimately show "\<exists>self'. run_combination env self c = Inr self'
               \<and> queue self' = queue self @
                    [([fst c, snd c],
                      \<lparr>diffusion_coefficient = NaN, uncertainty = NaN,
                       time_series = time self, vacf_series = vacf self\<rparr>)]"
      by simp
  }
  {
    fix e
    assume e: "calculate_prefactor self c = Inl e"
    show "run_combination env self c = Inl e"
      unfolding run pre e by simp
    show "e = KeyError \<or> e = ZeroDivisionError"
      using e by (rule calculate_prefactor_errors)
  }
  {
    fix na nb
    assume "species_n_particles (the_experiment self) (fst c) = Some na
              \<and> species_n_particles (the_experiment self) (snd c) = Some nb
              \<and> units_time (the_experiment self) \<noteq> 0 \<and> data_range self \<noteq> 1
              \<and> (if fst c = snd c then na * (na - 1) else na * nb) \<noteq> 0"
    then show "\<exists>s2. calculate_prefactor self c = Inr s2"
      using calculate_prefactor_value[of self "fst c" na "snd c" nb] by auto
  }
qed

lemma ex_prefactor_error:
  "calculate_prefactor (ex_calculator\<lparr>data_range := 1\<rparr>) (''Na'', ''Cl'') = Inl ZeroDivisionError"
  by (simp add: calculate_prefactor_def n_particles_def py_getitem_def ex_calculator_def
      ex_experiment_def Let_def)

theorem run_combination_without_ensembles_witness:
  "sigma ex_calculator = []
   \<and> list_all (\<lambda>batch. get_ensemble_dataset ex_env_short batch [''Na'', ''Cl''] = [])
        (get_batch_dataset ex_env_short [''Na'', ''Cl''])
   \<and> calculate_prefactor ex_calculator (''Na'', ''Cl'') = Inr (ex_calculator\<lparr>prefactor := 1 / 12\<rparr>)
   \<and> (\<exists>self'. run_combination ex_env_short ex_calculator (''Na'', ''Cl'') = Inr self'
         \<and> queue self' =
             [([''Na'', ''Cl''],
               \<lparr>diffusion_coefficient = NaN, uncertainty = NaN,
                time_series = [0, 1], vacf_series = [0, 0]\<rparr>)])
   \<and> sigma (ex_calculator\<lparr>data_range := 1\<rparr>) = []
   \<and> calculate_prefactor (ex_calculator\<lparr>data_range := 1\<rparr>) (''Na'', ''Cl'') = Inl ZeroDivisionError
   \<and> run_combination ex_env_short (ex_calculator\<lparr>data_range := 1\<rparr>) (''Na'', ''Cl'') =
       Inl ZeroDivisionError"
proof -
  have a: "sigma ex_calculator = []" "sigma (ex_calculator\<lparr>data_range := 1\<rparr>) = []"
    by (simp_all add: ex_configured)
  have b: "list_all (\<lambda>batch. get_ensemble_dataset ex_env_short batch
              [fst (''Na'', ''Cl''), snd (''Na'', ''Cl'')] = [])
        (get_batch_dataset ex_env_short [fst (''Na'', ''Cl''), snd (''Na'', ''Cl'')])"
    by (simp add: ex_env_short_def)
  have c: "calculate_prefactor ex_calculator (''Na'', ''Cl'') = Inr (ex_calculator\<lparr>prefactor := 1 / 12\<rparr>)"
    by (rule ex_prefactor(2)[OF ex_configured(1,3)])
  have "\<exists>self'. run_combination ex_env_short ex_calculator (''Na'', ''Cl'') = Inr self'
         \<and> queue self' =
             [([''Na'', ''Cl''],
               \<lparr>diffusion_coefficient = NaN, uncertainty = NaN,
                time_series = [0, 1], vacf_series = [0, 0]\<rparr>)]"
    using run_combination_without_ensembles[OF a(1) b] c by (simp add: ex_calculator_def)
  moreover have "run_combination ex_env_short (ex_calculator\<lparr>data_range := 1\<rparr>) (''Na'', ''Cl'') =
       Inl ZeroDivisionError"
    using run_combination_without_ensembles[OF a(2) b] ex_prefactor_error by simp
  ultimately show ?thesis
    using a b c ex_prefactor_error by simp
qed

text \<open>
  C7 as stated fails for a trajectory too short for a single window: the pass over the
  combination returns normally, and the record it queues carries \<open>nan\<close> for the mean
  and for the uncertainty.
\<close>

theorem empty_sample_set_counterexample:
  "\<exists>self'. run_combination ex_env_short ex_calculator (''Na'', ''Cl'') = Inr self'
     \<and> diffusion_coefficient (snd (last (queue self'))) = NaN
     \<and> uncertainty (snd (last (queue self'))) = NaN"
proof -
  have "batch_loop ex_env_short s [''Na'', ''Cl''] refs = Inr s" for s refs
    by (rule batch_loop_no_ensembles) (simp add: ex_env_short_def)
  then show ?thesis
    by (simp add: run_combination_def Let_def ex_prefactor(2) ex_configured
        last_queue_post_operation np_mean_def np_std_def)
qed

section \<open>Isolation of the sample list\<close>

lemma for_loop_rel:
  assumes "for_loop f s1 xs = Inr s1'" "R s1 s2"
    and "\<And>x a a' b. x \<in> set xs \<Longrightarrow> R a b \<Longrightarrow> f a x = Inr a' \<Longrightarrow> \<exists>b'. g b x = Inr b' \<and> R a' b'"
  shows "\<exists>s2'. for_loop g s2 xs = Inr s2' \<and> R s1' s2'"
  using assms
proof (induction xs arbitrary: s1 s2)
  case Nil
  then show ?case by simp
next
  case (Cons x xs)
  from Cons.prems(1) obtain a where a: "f s1 x = Inr a" "for_loop f a xs = Inr s1'"
    by (auto simp: rbind_eq_Inr)
  from Cons.prems(3)[OF _ Cons.prems(2) a(1)] obtain b where b: "g s2 x = Inr b" "R a b"
    by auto
  have "\<exists>s2'. for_loop g b xs = Inr s2' \<and> R s1' s2'"
    using a(2) b(2) Cons.prems(3) by (intro Cons.IH) auto
  with b(1) show ?case by simp
qed

lemma ensemble_operation_agree:
  assumes "ensemble_operation s1 e r b = Inr s1'"
    and "same_configuration s1 s2 \<and> sigma s2 = sigma s1"
  shows "\<exists>s2'. ensemble_operation s2 e r b = Inr s2'
           \<and> (same_configuration s1' s2' \<and> sigma s2' = sigma s1')"
  using assms
  by (auto simp: ensemble_operation_def rbind_eq_Inr same_configuration_def)

lemma batch_loop_agree:
  assumes "batch_loop env s1 sv refs = Inr s1'"
    and "same_configuration s1 s2 \<and> sigma s2 = sigma s1"
  shows "\<exists>s2'. batch_loop env s2 sv refs = Inr s2'
           \<and> (same_configuration s1' s2' \<and> sigma s2' = sigma s1')"
  unfolding batch_loop_def
proof (rule for_loop_rel[OF assms(1)[unfolded batch_loop_def],
      where R = "\<lambda>a b. same_configuration a b \<and> sigma b = sigma a"])
  show "same_configuration s1 s2 \<and> sigma s2 = sigma s1" by (rule assms(2))
next
  fix x a a' b
  assume "same_configuration a b \<and> sigma b = sigma a"
    and "for_loop (\<lambda>s' ens. ensemble_operation s' ens refs False) a
           (get_ensemble_dataset env x sv) = Inr a'"
  then show "\<exists>b'. for_loop (\<lambda>s' ens. ensemble_operation s' ens refs False) b
           (get_ensemble_dataset env x sv) = Inr b'
         \<and> (same_configuration a' b' \<and> sigma b' = sigma a')"
    using ensemble_operation_agree
    by (intro for_loop_rel[where f = "\<lambda>s' ens. ensemble_operation s' ens refs False"
          and R = "\<lambda>a b. same_configuration a b \<and> sigma b = sigma a" and ?s1.0 = a]) auto
qed

lemma calculate_prefactor_agree:
  assumes "calculate_prefactor s1 c = Inr s1'"
    and "same_configuration s1 s2 \<and> sigma s2 = sigma s1"
  shows "\<exists>s2'. calculate_prefactor s2 c = Inr s2' \<and> prefactor s2' = prefactor s1'
           \<and> sigma s2' = sigma s1'"
proof -
  have "calculate_prefactor s2 c = Inr (s2\<lparr>prefactor := prefactor s1'\<rparr>)"
    using assms by (subst calculate_prefactor_cong[of s2 s1]) (simp_all add: same_configuration_def)
  moreover have "sigma s1' = sigma s1"
    using arg_cong[OF calculate_prefactor_frame[OF assms(1)], of sigma] by simp
  ultimately show ?thesis using assms(2) by simp
qed

lemma run_combination_agree:
  assumes "run_combination env s1 c = Inr s1'"
    and "same_configuration s1 s2 \<and> sigma s2 = sigma s1"
  shows "\<exists>s2'. run_combination env s2 c = Inr s2'
           \<and> diffusion_coefficient (snd (last (queue s2'))) =
               diffusion_coefficient (snd (last (queue s1')))
           \<and> uncertainty (snd (last (queue s2'))) = uncertainty (snd (last (queue s1')))"
proof -
  let ?bar = "\<lambda>s. \<lparr>ncols = 70, desc = fst c @ ''-'' @ snd c, total = n_batches s,
                    disable = minibatch s\<rparr>"
  let ?refs = "[fst c @ ''/'' @ property_name env, snd c @ ''/'' @ property_name env]"
  from assms(1) obtain a1 a2 where
    a1: "batch_loop env (s1\<lparr>bars := bars s1 @ [?bar s1]\<rparr>) [fst c, snd c] ?refs = Inr a1"
    and a2: "calculate_prefactor a1 c = Inr a2"
    and s1': "s1' = (post_operation_processes a2 c)\<lparr>sigma := []\<rparr>"
    by (rule run_combination_InrD)
  have "same_configuration (s1\<lparr>bars := bars s1 @ [?bar s1]\<rparr>) (s2\<lparr>bars := bars s2 @ [?bar s2]\<rparr>)
        \<and> sigma (s2\<lparr>bars := bars s2 @ [?bar s2]\<rparr>) = sigma (s1\<lparr>bars := bars s1 @ [?bar s1]\<rparr>)"
    using assms(2) by (simp add: same_configuration_def)
  from batch_loop_agree[OF a1 this] obtain b1 where
    b1: "batch_loop env (s2\<lparr>bars := bars s2 @ [?bar s2]\<rparr>) [fst c, snd c] ?refs = Inr b1"
    and r1: "same_configuration a1 b1 \<and> sigma b1 = sigma a1"
    by auto
  from calculate_prefactor_agree[OF a2 r1] obtain b2 where
    b2: "calculate_prefactor b1 c = Inr b2" "prefactor b2 = prefactor a2" "sigma b2 = sigma a2"
    by auto
  have "run_combination env s2 c = Inr ((post_operation_processes b2 c)\<lparr>sigma := []\<rparr>)"
    using b1 b2(1) by (simp add: run_combination_def Let_def)
  moreover have "snd (last (queue ((post_operation_processes b2 c)\<lparr>sigma := []\<rparr>))) =
      snd (last (queue (post_operation_processes b2 c)))"
    "snd (last (queue s1')) = snd (last (queue (post_operation_processes a2 c)))"
    by (simp_all add: s1')
  ultimately show ?thesis
    by (simp add: last_queue_post_operation b2)
qed

lemma combinations_loop_reset:
  assumes "for_loop (run_combination env) s cs = Inr s'" "sigma s = []"
  shows "same_configuration s s' \<and> sigma s' = []"
proof (rule for_loop_invariant[OF assms(1), where P = "\<lambda>t. same_configuration s t \<and> sigma t = []"])
  show "same_configuration s s \<and> sigma s = []"
    using assms(2) by (simp add: same_configuration_def)
next
  fix t c t'
  assume "same_configuration s t \<and> sigma t = []" "run_combination env t c = Inr t'"
  then show "same_configuration s t' \<and> sigma t' = []"
    using run_combination_fields(1,2,3,7)[of env t c t'] by (simp add: same_configuration_def)
qed

text \<open>
  C6: in a run that starts with the empty sample list of a fresh calculator (the
  constructor sets \<^verbatim>\<open>self.sigma = []\<close>), the sample list is empty again
  when the combinations processed so far are done, so that the next combination starts
  from an empty list and leaves an empty list behind; the mean and the uncertainty of its
  record are those the same combination yields when it is processed first, whatever was
  processed before it.
\<close>

theorem sample_accumulator_isolation:
  assumes "sigma self = []"
    and "for_loop (run_combination env) self ys = Inr sY"
    and "run_combination env sY x = Inr sYX"
  shows "sigma sY = [] \<and> sigma sYX = []
       \<and> (\<exists>sX. run_combination env self x = Inr sX
            \<and> diffusion_coefficient (snd (last (queue sX))) =
                diffusion_coefficient (snd (last (queue sYX)))
            \<and> uncertainty (snd (last (queue sX))) = uncertainty (snd (last (queue sYX))))"
proof -
  have r: "same_configuration self sY \<and> sigma sY = []"
    using assms(2,1) by (rule combinations_loop_reset)
  then have "same_configuration sY self \<and> sigma self = sigma sY"
    using assms(1) by (simp add: same_configuration_def)
  from run_combination_agree[OF assms(3) this] r run_combination_fields(7)[OF assms(3)]
  show ?thesis by simp
qed

theorem sample_accumulator_isolation_witness:
  "sigma ex_calculator = []
   \<and> (\<exists>sY sYX sX. for_loop (run_combination ex_env) ex_calculator [(''Na'', ''Na'')] = Inr sY
        \<and> run_combination ex_env sY (''Na'', ''Cl'') = Inr sYX
        \<and> run_combination ex_env ex_calculator (''Na'', ''Cl'') = Inr sX
        \<and> sigma sY = [] \<and> sigma sYX = []
        \<and> diffusion_coefficient (snd (last (queue sYX))) = Num (13 / 24)
        \<and> diffusion_coefficient (snd (last (queue sX))) = Num (13 / 24)
        \<and> uncertainty (snd (last (queue sX))) = uncertainty (snd (last (queue sYX))))"
proof -
  obtain sY where sY: "for_loop (run_combination ex_env) ex_calculator [(''Na'', ''Na'')] = Inr sY"
    by (simp add: ex_run_combination(1)[OF ex_configured(1,2,3)])
  have cfg: "data_range sY = 2" "time sY = [0, 1]" "the_experiment sY = ex_experiment"
    using combinations_loop_reset[OF sY ex_configured(4)]
    by (simp_all add: same_configuration_def ex_configured)
  obtain sYX where sYX: "run_combination ex_env sY (''Na'', ''Cl'') = Inr sYX"
    by (simp add: ex_run_combination(2)[OF cfg])
  have m: "diffusion_coefficient (snd (last (queue sYX))) = Num (13 / 24)"
    using sYX combinations_loop_reset[OF sY ex_configured(4)]
    by (auto simp add: ex_run_combination(2)[OF cfg] post_operation_processes_def Let_def np_mean_def)
  from sample_accumulator_isolation[OF ex_configured(4) sY sYX] m ex_configured(4) sY sYX
  show ?thesis by auto
qed

section \<open>The reported correlation series and the flux windows\<close>

lemma ensemble_operation_resets_vacf:
  "ensemble_operation (s\<lparr>vacf := v\<rparr>) e r b =
     (case ensemble_operation s e r b of Inl err \<Rightarrow> Inl err | Inr s' \<Rightarrow> Inr s')"
  by (auto simp: ensemble_operation_def rbind_def split: sum.splits)

text \<open>
  C1 on the example: the two ensembles of the combination have the one-sided
  correlations \<open>[5, 7]\<close> and \<open>[9, 5]\<close>. The operation starts each ensemble from a zeroed
  array, so after the second ensemble the calculator holds \<open>[9, 5]\<close> and the record of
  the combination reports \<open>[9, 5]\<close>, not the sum \<open>[14, 12]\<close> over both ensembles.
\<close>

theorem vacf_series_of_last_ensemble:
  "ensemble_operation ex_calculator ex_ensemble [''Na/Velocities'', ''Cl/Velocities''] False =
     Inr (ex_calculator\<lparr>vacf := [5, 7], sigma := [6]\<rparr>)
   \<and> ensemble_operation (ex_calculator\<lparr>vacf := [5, 7], sigma := [6]\<rparr>) ex_ensemble2
       [''Na/Velocities'', ''Cl/Velocities''] False =
     Inr (ex_calculator\<lparr>vacf := [9, 5], sigma := [6, 7]\<rparr>)
   \<and> (\<exists>self'. run_combination ex_env ex_calculator (''Na'', ''Cl'') = Inr self'
         \<and> vacf_series (snd (last (queue self'))) = [9, 5]
         \<and> vacf_series (snd (last (queue self'))) \<noteq> map2 (+) [5, 7] [9, 5])"
proof -
  have "ensemble_operation ex_calculator ex_ensemble [''Na/Velocities'', ''Cl/Velocities''] False =
     Inr (ex_calculator\<lparr>vacf := [5, 7], sigma := [6]\<rparr>)"
    by (simp add: ex_operation_Na_Cl(1)[OF ex_configured(1,2)] ex_configured)
  moreover have "ensemble_operation (ex_calculator\<lparr>vacf := [5, 7], sigma := [6]\<rparr>) ex_ensemble2
       [''Na/Velocities'', ''Cl/Velocities''] False =
     Inr (ex_calculator\<lparr>vacf := [9, 5], sigma := [6, 7]\<rparr>)"
    by (subst ex_operation_Na_Cl(2)) (simp_all add: ex_configured)
  moreover have "\<exists>self'. run_combination ex_env ex_calculator (''Na'', ''Cl'') = Inr self'
         \<and> vacf_series (snd (last (queue self'))) = [9, 5]
         \<and> vacf_series (snd (last (queue self'))) \<noteq> map2 (+) [5, 7] [9, 5]"
    by (simp add: ex_run_combination(2)[OF ex_configured(1,2,3)] post_operation_processes_def Let_def)
  ultimately show ?thesis by blast
qed

lemma window_offsets_unit_stride:
  assumes "dr \<le> len"
  shows "window_offsets 1 dr len = [0..<len - dr + 1]"
proof -
  have parts: "[0..<Suc len] = [0..<len - dr + 1] @ [len - dr + 1..<Suc len]"
  proof -
    have "[0..<(len - dr + 1) + dr] = [0..<len - dr + 1] @ [len - dr + 1..<(len - dr + 1) + dr]"
      by (rule upt_add_eq_append) simp
    then show ?thesis using assms by simp
  qed
  have "takeWhile (\<lambda>off. off + dr \<le> len) ([0..<len - dr + 1] @ [len - dr + 1..<Suc len]) =
        [0..<len - dr + 1] @ takeWhile (\<lambda>off. off + dr \<le> len) [len - dr + 1..<Suc len]"
    using assms by (intro takeWhile_append2) auto
  moreover have "takeWhile (\<lambda>off. off + dr \<le> len) [len - dr + 1..<Suc len] = []"
  proof (cases "len - dr + 1 < Suc len")
    case True
    then have "hd [len - dr + 1..<Suc len] = len - dr + 1" by (rule hd_upt)
    then show ?thesis using assms by (simp add: takeWhile_eq_Nil_iff del: upt_Suc)
  next
    case False
    then show ?thesis by simp
  qed
  ultimately show ?thesis
    by (simp add: window_offsets_def parts del: upt_Suc)
qed

lemma loop_range_two_short:
  assumes "0 \<le> dr" "nat dr \<le> length flux"
  shows "loop_range flux dr = int (length (window_offsets 1 (nat dr) (length flux))) - 2"
proof -
  have "window_offsets 1 (nat dr) (length flux) = [0..<length flux - nat dr + 1]"
    by (rule window_offsets_unit_stride[OF assms(2)])
  then show ?thesis using assms by (simp add: loop_range_def)
qed

text \<open>
  C8 on the example: for a flux series of exactly \<open>data_range = 4\<close> time steps the number
  of windows the code computes is \<open>-1\<close>, where the offsets \<open>0, stride, \<dots>\<close> taken while
  \<open>offset + data_range \<le> length\<close> are the single offset \<open>0\<close>. In general the computed number
  is two less than the number of these offsets.
\<close>

theorem flux_windows_at_boundary:
  "length ex_flux = 4 \<and> loop_range ex_flux 4 = - 1
   \<and> window_offsets 1 4 (length ex_flux) = [0]
   \<and> loop_range ex_flux 4 \<noteq> int (length (window_offsets 1 4 (length ex_flux)))"
  by (simp add: ex_flux_def loop_range_def window_offsets_def upt_rec)

end
